theory Spec2Isabelle
  imports Main "HOL-Library.AList"
begin

section \<open>JavaScript values\<close>

text \<open>
  The helper \<^verbatim>\<open>cloudfront-distribution-helper.ts\<close> receives loosely typed arguments
  (\<^verbatim>\<open>cloudFrontDistributionProps?: CloudFrontWebDistributionProps | any\<close>,
  \<^verbatim>\<open>httpSecurityHeaders?: boolean\<close>) and branches on their truthiness. Values are
  modelled as a datatype: primitives, references to constructs of the construct tree
  (\<open>JRef\<close>, an address), arrays, and plain objects as association lists (key order kept).
  Numbers are the integers (no NaN, no fractions: no branch of the helper looks at one).
\<close>

datatype jsval =
    JUndefined
  | JNull
  | JBool bool
  | JNum int
  | JStr string
  | JRef nat
  | JArr "jsval list"
  | JObj "(string \<times> jsval) list"

text \<open>ToBoolean: \<^verbatim>\<open>undefined\<close>, \<^verbatim>\<open>null\<close>, \<^verbatim>\<open>false\<close>, \<^verbatim>\<open>0\<close> and \<^verbatim>\<open>''\<close> are falsy.\<close>

fun truthy :: "jsval \<Rightarrow> bool" where
  "truthy JUndefined = False"
| "truthy JNull = False"
| "truthy (JBool b) = b"
| "truthy (JNum n) = (n \<noteq> 0)"
| "truthy (JStr s) = (s \<noteq> [])"
| "truthy (JRef a) = True"
| "truthy (JArr xs) = True"
| "truthy (JObj kvs) = True"

text \<open>
  Property read \<^verbatim>\<open>v.k\<close>. The helper reads a property only behind a truthiness guard
  (\<^verbatim>\<open>p && p.loggingConfig\<close>), so it never reads from \<^verbatim>\<open>undefined\<close> or \<^verbatim>\<open>null\<close>
  (the only reads that throw); on every truthy value that is not a plain object the keys
  read here (\<^verbatim>\<open>loggingConfig\<close>, \<^verbatim>\<open>bucket\<close>) are absent and the read gives
  \<^verbatim>\<open>undefined\<close>.
\<close>

fun getProp :: "jsval \<Rightarrow> string \<Rightarrow> jsval" where
  "getProp (JObj kvs) k = (case map_of kvs k of Some v \<Rightarrow> v | None \<Rightarrow> JUndefined)"
| "getProp v k = JUndefined"

text \<open>Own enumerable properties of an object, and the elements of an array.\<close>

fun entries :: "jsval \<Rightarrow> (string \<times> jsval) list" where
  "entries (JObj kvs) = kvs"
| "entries v = []"

fun elems :: "jsval \<Rightarrow> jsval list" where
  "elems (JArr xs) = xs"
| "elems v = []"

text \<open>Own-property lookup that tells an absent key from a key holding \<^verbatim>\<open>undefined\<close>.\<close>

definition ownProp :: "jsval \<Rightarrow> string \<Rightarrow> jsval option" where
  "ownProp v k = map_of (entries v) k"

section \<open>The construct tree\<close>

text \<open>
  Every resource the helper creates is registered under the \<^verbatim>\<open>scope\<close> it is given.
  The tree is the list of constructs in creation order; a construct's address is its
  position, so a new construct gets the address \<open>length t\<close>. A record stands for a
  construct together with its underlying synthesized resource (its \<^verbatim>\<open>defaultChild\<close>,
  the child named \<^verbatim>\<open>Resource\<close>): \<open>raw_overrides\<close> are the property and deletion
  overrides added to that resource, in order, and \<open>metadata\<close> is its
  \<^verbatim>\<open>cfnOptions.metadata\<close>. A bucket's resource policy (created by the first
  \<^verbatim>\<open>addToResourcePolicy\<close>) is kept with the bucket.

  The tree holds the constructs the helper creates and those it is handed. Constructs
  that a framework constructor creates on its own, as children of the construct it
  builds (the logging bucket a distribution gives itself when its configuration has a
  \<^verbatim>\<open>loggingConfig\<close> without a bucket, for one), are not part of it: \<open>created\<close> below
  is what the helper has created. The framework's own construction-time validation
  (duplicate ids in a scope, illegal property combinations) lies outside this
  development: constructors are total here, as the helper adds no error handling of its
  own.
\<close>

datatype kind =
    Bucket
  | LambdaFunction
  | LambdaVersion
  | CfnOriginAccessIdentity
  | ImportedOriginAccessIdentity
  | WebDistribution

record bucket_policy =
  statements :: "jsval list"
  policy_metadata :: jsval

record construct =
  kind :: kind
  scope :: nat
  cid :: string
  props :: jsval
  raw_overrides :: "(string \<times> jsval option) list"
  metadata :: jsval
  policy :: "bucket_policy option"

type_synonym tree = "construct list"

definition newConstruct :: "kind \<Rightarrow> nat \<Rightarrow> string \<Rightarrow> jsval \<Rightarrow> tree \<Rightarrow> nat \<times> tree" where
  "newConstruct k sc i p t =
     (length t,
      t @ [\<lparr>kind = k, scope = sc, cid = i, props = p, raw_overrides = [],
            metadata = JUndefined, policy = None\<rparr>])"

text \<open>In-place mutation of the construct at an address.\<close>

definition modify :: "nat \<Rightarrow> (construct \<Rightarrow> construct) \<Rightarrow> tree \<Rightarrow> tree" where
  "modify a f t = (if a < length t then t[a := f (t ! a)] else t)"

text \<open>
  \<^verbatim>\<open>res.addOverride(path, value)\<close>; \<^verbatim>\<open>addPropertyOverride(p, v)\<close> is
  \<^verbatim>\<open>addOverride('Properties.' + p, v)\<close> and \<^verbatim>\<open>addDeletionOverride(path)\<close> is
  \<^verbatim>\<open>addOverride(path, undefined)\<close>, recorded as \<open>None\<close>.
\<close>

definition addOverride :: "nat \<Rightarrow> string \<Rightarrow> jsval option \<Rightarrow> tree \<Rightarrow> tree" where
  "addOverride a path v t = modify a (\<lambda>c. c\<lparr>raw_overrides := raw_overrides c @ [(path, v)]\<rparr>) t"

definition addPropertyOverride :: "nat \<Rightarrow> string \<Rightarrow> jsval \<Rightarrow> tree \<Rightarrow> tree" where
  "addPropertyOverride a p v t = addOverride a (''Properties.'' @ p) (Some v) t"

definition addDeletionOverride :: "nat \<Rightarrow> string \<Rightarrow> tree \<Rightarrow> tree" where
  "addDeletionOverride a path t = addOverride a path None t"

text \<open>The assignment \<^verbatim>\<open>res.cfnOptions.metadata = md\<close>.\<close>

definition setMetadata :: "nat \<Rightarrow> jsval \<Rightarrow> tree \<Rightarrow> tree" where
  "setMetadata a md t = modify a (\<lambda>c. c\<lparr>metadata := md\<rparr>) t"

section \<open>updateSecurityPolicy\<close>

definition w70_reason :: string where
  "w70_reason = ''Since the distribution uses the CloudFront domain name, CloudFront automatically sets the security policy to TLSv1 regardless of the value of MinimumProtocolVersion''"

definition w70_metadata :: jsval where
  "w70_metadata =
     JObj [(''cfn_nag'', JObj [(''rules_to_suppress'',
       JArr [JObj [(''id'', JStr ''W70''), (''reason'', JStr w70_reason)]])])]"

definition updateSecurityPolicy :: "nat \<Rightarrow> tree \<Rightarrow> nat \<times> tree" where
  "updateSecurityPolicy cfDistribution t =
     (cfDistribution, setMetadata cfDistribution w70_metadata t)"

section \<open>Collaborators outside the helper\<close>

text \<open>
  The helper imports \<^verbatim>\<open>DefaultS3Props\<close> (\<^verbatim>\<open>./s3-bucket-defaults\<close>), the two
  default-configuration suppliers (\<^verbatim>\<open>./cloudfront-distribution-defaults\<close>) and
  \<^verbatim>\<open>overrideProps\<close> (\<^verbatim>\<open>./utils\<close>) from sibling modules, and builds on the
  resource framework. None of them is part of the sources at hand; all are pure
  functions of their arguments, and each is a parameter of the model, so that what is
  proved of the helper holds whatever they compute:
  \<^item> \<open>DefaultS3Props\<close>: the default bucket properties;
  \<^item> \<open>DefaultCloudFrontWebDistributionForApiGatewayProps\<close>, called with the API
    endpoint, the logging bucket, the header-injection flag and the edge-function
    version;
  \<^item> \<open>DefaultCloudFrontWebDistributionForS3Props\<close>, called with the source bucket, the
    logging bucket, the origin access identity, the flag and the version;
  \<^item> \<open>overrideProps\<close>, called with the defaults and the caller's properties;
  \<^item> \<open>synthesize\<close>: the \<^verbatim>\<open>Properties\<close> block the framework synthesizes for a
    construct of a kind from the properties it was constructed with, before overrides;
  \<^item> \<open>distributionGrants\<close>: the statements that constructing a distribution from a
    configuration adds, by itself, to the resource policy of a bucket (the framework's
    \<^verbatim>\<open>CloudFrontWebDistribution\<close> grants the origin access identity of a bucket
    origin read access to that bucket).
\<close>

record collaborators =
  DefaultS3Props :: jsval
  DefaultCloudFrontWebDistributionForApiGatewayProps ::
    "jsval \<Rightarrow> jsval \<Rightarrow> jsval \<Rightarrow> jsval \<Rightarrow> jsval"
  DefaultCloudFrontWebDistributionForS3Props ::
    "jsval \<Rightarrow> jsval \<Rightarrow> jsval \<Rightarrow> jsval \<Rightarrow> jsval \<Rightarrow> jsval"
  overrideProps :: "jsval \<Rightarrow> jsval \<Rightarrow> jsval"
  synthesize :: "kind \<Rightarrow> jsval \<Rightarrow> (string \<times> jsval) list"
  distributionGrants :: "nat \<Rightarrow> jsval \<Rightarrow> jsval list"

subsection \<open>The synthesized resource declaration\<close>

fun splitDots :: "string \<Rightarrow> string list" where
  "splitDots [] = [[]]"
| "splitDots (c # cs) =
     (if c = CHR ''.'' then [] # splitDots cs
      else (case splitDots cs of p # ps \<Rightarrow> (c # p) # ps | [] \<Rightarrow> [[c]]))"

fun setPath :: "string list \<Rightarrow> jsval \<Rightarrow> jsval \<Rightarrow> jsval" where
  "setPath [] v d = v"
| "setPath (k # ks) v d = JObj (AList.update k (setPath ks v (getProp d k)) (entries d))"

fun deletePath :: "string list \<Rightarrow> jsval \<Rightarrow> jsval" where
  "deletePath [] d = d"
| "deletePath [k] d = (case d of JObj kvs \<Rightarrow> JObj (AList.delete k kvs) | _ \<Rightarrow> d)"
| "deletePath (k # ks) d =
     (case d of
        JObj kvs \<Rightarrow>
          (case map_of kvs k of
             Some sub \<Rightarrow> JObj (AList.update k (deletePath ks sub) kvs)
           | None \<Rightarrow> d)
      | _ \<Rightarrow> d)"

definition applyOverride :: "jsval \<Rightarrow> string \<times> jsval option \<Rightarrow> jsval" where
  "applyOverride d ov =
     (case snd ov of
        Some v \<Rightarrow> setPath (splitDots (fst ov)) v d
      | None \<Rightarrow> deletePath (splitDots (fst ov)) d)"

text \<open>
  The declaration of a construct's resource in the synthesized template: the
  framework's \<^verbatim>\<open>Properties\<close> and the resource's \<^verbatim>\<open>Metadata\<close>, with the raw
  overrides applied in the order they were added.
\<close>

definition resourceDeclaration :: "collaborators \<Rightarrow> construct \<Rightarrow> jsval" where
  "resourceDeclaration fw c =
     foldl applyOverride
       (JObj [(''Properties'', JObj (synthesize fw (kind c) (props c))),
              (''Metadata'', metadata c)])
       (raw_overrides c)"

section \<open>createCloudfrontLoggingBucket\<close>

definition logging_reason :: string where
  "logging_reason = ''This S3 bucket is used as the access logging bucket for CloudFront Distribution''"

definition logging_metadata :: jsval where
  "logging_metadata =
     JObj [(''cfn_nag'', JObj [(''rules_to_suppress'',
       JArr [JObj [(''id'', JStr ''W35''), (''reason'', JStr logging_reason)],
             JObj [(''id'', JStr ''W51''), (''reason'', JStr logging_reason)]])])]"

definition createCloudfrontLoggingBucket :: "collaborators \<Rightarrow> nat \<Rightarrow> tree \<Rightarrow> nat \<times> tree" where
  "createCloudfrontLoggingBucket fw sc t =
     (let (loggingBucket, t1) = newConstruct Bucket sc ''CloudfrontLoggingBucket'' (DefaultS3Props fw) t;
          t2 = addPropertyOverride loggingBucket ''AccessControl'' (JStr ''LogDeliveryWrite'') t1;
          t3 = setMetadata loggingBucket logging_metadata t2
      in (loggingBucket, t3))"

section \<open>defaultLambdaEdgeFunction\<close>

text \<open>
  The inline handler is a fixed literal: it assigns six response headers and calls back
  with the response. It is represented by the table of the headers it assigns (the
  lower-case header name, the \<^verbatim>\<open>key\<close> and the \<^verbatim>\<open>value\<close>).
\<close>

definition securityHeaders :: "(string \<times> string \<times> string) list" where
  "securityHeaders =
     [(''x-xss-protection'', ''X-XSS-Protection'', ''1; mode=block''),
      (''x-frame-options'', ''X-Frame-Options'', ''DENY''),
      (''x-content-type-options'', ''X-Content-Type-Options'', ''nosniff''),
      (''strict-transport-security'', ''Strict-Transport-Security'',
         ''max-age=63072000; includeSubdomains; preload''),
      (''referrer-policy'', ''Referrer-Policy'', ''same-origin''),
      (''content-security-policy'', ''Content-Security-Policy'',
         ''default-src 'none'; base-uri 'self'; img-src 'self'; script-src 'self'; style-src 'self' https:; object-src 'none'; frame-ancestors 'none'; font-src 'self' https:; form-action 'self'; manifest-src 'self'; connect-src 'self'' @ [CHR 0x27])]"

definition inlineHandler :: jsval where
  "inlineHandler =
     JObj [(''inlineCode'',
       JArr (map (\<lambda>(h, k, v). JObj [(''header'', JStr h), (''key'', JStr k), (''value'', JStr v)])
               securityHeaders))]"

text \<open>
  Modelled from the spec: \<^verbatim>\<open>deployLambdaFunction\<close> of \<^verbatim>\<open>./lambda-helper\<close> is not
  part of the sources at hand. The spec describes it as the helper that "provisions a
  compute resource from a code/runtime/handler triple": one function construct under the
  scope, with the given id and properties. Whatever else ends up in the function's
  declaration (an environment block, for one) is the \<open>synthesize\<close> parameter's.
\<close>

definition deployLambdaFunction :: "nat \<Rightarrow> jsval \<Rightarrow> string \<Rightarrow> tree \<Rightarrow> nat \<times> tree" where
  "deployLambdaFunction sc lambdaFunctionProps functionId t =
     newConstruct LambdaFunction sc functionId lambdaFunctionProps t"

definition defaultLambdaEdgeFunction :: "nat \<Rightarrow> tree \<Rightarrow> nat \<times> tree" where
  "defaultLambdaEdgeFunction sc t =
     (let (edgeLambdaFunc, t1) =
            deployLambdaFunction sc
              (JObj [(''code'', inlineHandler),
                     (''runtime'', JStr ''nodejs12.x''),
                     (''handler'', JStr ''index.handler'')])
              ''SetHttpSecurityHeaders'' t;
          t2 = addDeletionOverride edgeLambdaFunc ''Properties.Environment'' t1
      in (edgeLambdaFunc, t2))"

text \<open>
  The block \<^verbatim>\<open>if (_httpSecurityHeaders) { edgeLambdaVersion = new lambda.Version(scope,
  "SetHttpSecurityHeadersVersion", { lambda: defaultLambdaEdgeFunction(scope) }); }\<close>
  of both entry points: the function is created first (it is an argument of the
  version's constructor); \<^verbatim>\<open>edgeLambdaVersion\<close> stays \<^verbatim>\<open>undefined\<close> otherwise.
\<close>

definition edgeLambdaVersionIf :: "bool \<Rightarrow> nat \<Rightarrow> tree \<Rightarrow> jsval \<times> tree" where
  "edgeLambdaVersionIf enabled sc t =
     (if enabled then
        (let (edgeLambdaFunc, t1) = defaultLambdaEdgeFunction sc t;
             (version, t2) = newConstruct LambdaVersion sc ''SetHttpSecurityHeadersVersion''
                               (JObj [(''lambda'', JRef edgeLambdaFunc)]) t1
         in (JRef version, t2))
      else (JUndefined, t))"

section \<open>The default configuration and the override merge, as the spec has them\<close>

text \<open>
  Modelled from the spec: \<^verbatim>\<open>DefaultCloudFrontWebDistributionForApiGatewayProps\<close> and
  \<^verbatim>\<open>DefaultCloudFrontWebDistributionForS3Props\<close> of
  \<^verbatim>\<open>./cloudfront-distribution-defaults\<close> are not part of the sources at hand. By the
  spec the resolver "produces a complete distribution configuration given (a) the origin
  (API endpoint or bucket+identity), (b) a logging destination, (c) whether header
  injection is enabled, (d) an optional edge-function version"; if header injection is
  enabled the version is attached "to the distribution's default-behavior edge-function
  list; otherwise omit it"; "all other fields are fixed defaults" (the list \<open>fixed\<close>).
  The fields carry the names of the framework's \<^verbatim>\<open>CloudFrontWebDistributionProps\<close>:
  the origin descriptor is the single entry of \<^verbatim>\<open>originConfigs\<close>, the access-log
  destination is \<^verbatim>\<open>loggingConfig.bucket\<close>, the edge-function list of the default
  behaviour is its \<^verbatim>\<open>lambdaFunctionAssociations\<close>.
\<close>

definition defaultBehavior :: "jsval \<Rightarrow> jsval \<Rightarrow> jsval" where
  "defaultBehavior setHttpSecurityHeaders edgeLambda =
     JObj ((''isDefaultBehavior'', JBool True) #
           (if truthy setHttpSecurityHeaders
            then [(''lambdaFunctionAssociations'',
                   JArr [JObj [(''eventType'', JStr ''origin-response''),
                               (''lambdaFunction'', edgeLambda)]])]
            else []))"

definition specDefaultApiGatewayProps ::
  "(string \<times> jsval) list \<Rightarrow> jsval \<Rightarrow> jsval \<Rightarrow> jsval \<Rightarrow> jsval \<Rightarrow> jsval" where
  "specDefaultApiGatewayProps fixed apiEndPoint loggingBucket setHttpSecurityHeaders edgeLambda =
     JObj ([(''originConfigs'',
             JArr [JObj [(''customOriginSource'', JObj [(''apiEndPoint'', apiEndPoint)]),
                         (''behaviors'',
                          JArr [defaultBehavior setHttpSecurityHeaders edgeLambda])]]),
            (''loggingConfig'', JObj [(''bucket'', loggingBucket)])]
           @ fixed)"

definition specDefaultS3Props ::
  "(string \<times> jsval) list \<Rightarrow> jsval \<Rightarrow> jsval \<Rightarrow> jsval \<Rightarrow> jsval \<Rightarrow> jsval \<Rightarrow> jsval" where
  "specDefaultS3Props fixed sourceBucket loggingBucket originAccessIdentity
       setHttpSecurityHeaders edgeLambda =
     JObj ([(''originConfigs'',
             JArr [JObj [(''s3OriginSource'',
                          JObj [(''s3BucketSource'', sourceBucket),
                                (''originAccessIdentity'', originAccessIdentity)]),
                         (''behaviors'',
                          JArr [defaultBehavior setHttpSecurityHeaders edgeLambda])]]),
            (''loggingConfig'', JObj [(''bucket'', loggingBucket)])]
           @ fixed)"

text \<open>
  Modelled from the spec: \<^verbatim>\<open>overrideProps\<close> of \<^verbatim>\<open>./utils\<close> is not part of the
  sources at hand. By the spec it is "a shallow merge -- every top-level property present
  in the caller object replaces the corresponding default property entirely (no recursive
  merge of nested objects); properties absent from the caller object retain their default
  value". The defaults keep their key order, the caller's new keys follow; a caller value
  that is not a plain object has no own properties to contribute.
\<close>

definition specOverrideProps :: "jsval \<Rightarrow> jsval \<Rightarrow> jsval" where
  "specOverrideProps DefaultProps userProps =
     JObj (map (\<lambda>(k, v). (k, case map_of (entries userProps) k of Some w \<Rightarrow> w | None \<Rightarrow> v))
             (entries DefaultProps)
           @ filter (\<lambda>(k, w). map_of (entries DefaultProps) k = None) (entries userProps))"

section \<open>CloudFrontDistributionForApiGateway\<close>

text \<open>
  Lines 124--143 of the helper: the header-injection flag
  \<^verbatim>\<open>httpSecurityHeaders ? httpSecurityHeaders : true\<close>, the edge-function version, and
  the default configuration, with a fresh logging bucket unless the caller's properties
  carry a \<^verbatim>\<open>loggingConfig\<close>.
\<close>

definition apiGatewayDefaultprops ::
  "collaborators \<Rightarrow> nat \<Rightarrow> jsval \<Rightarrow> jsval \<Rightarrow> jsval \<Rightarrow> tree \<Rightarrow> jsval \<times> tree" where
  "apiGatewayDefaultprops fw sc apiEndPoint cloudFrontDistributionProps httpSecurityHeaders t =
     (let httpSecurityHeaders' =
            (if truthy httpSecurityHeaders then httpSecurityHeaders else JBool True);
          (edgeLambdaVersion, t1) = edgeLambdaVersionIf (truthy httpSecurityHeaders') sc t
      in if truthy cloudFrontDistributionProps
            \<and> truthy (getProp cloudFrontDistributionProps ''loggingConfig'')
         then (DefaultCloudFrontWebDistributionForApiGatewayProps fw apiEndPoint
                 (getProp (getProp cloudFrontDistributionProps ''loggingConfig'') ''bucket'')
                 httpSecurityHeaders' edgeLambdaVersion, t1)
         else (let (loggingBucket, t2) = createCloudfrontLoggingBucket fw sc t1
               in (DefaultCloudFrontWebDistributionForApiGatewayProps fw apiEndPoint
                     (JRef loggingBucket) httpSecurityHeaders' edgeLambdaVersion, t2)))"

text \<open>Lines 145--150: the merge, the distribution, the compliance patch.\<close>

definition CloudFrontDistributionForApiGateway ::
  "collaborators \<Rightarrow> nat \<Rightarrow> jsval \<Rightarrow> jsval \<Rightarrow> jsval \<Rightarrow> tree \<Rightarrow> nat \<times> tree" where
  "CloudFrontDistributionForApiGateway fw sc apiEndPoint cloudFrontDistributionProps
       httpSecurityHeaders t =
     (let (defaultprops, t1) =
            apiGatewayDefaultprops fw sc apiEndPoint cloudFrontDistributionProps
              httpSecurityHeaders t;
          cfprops = (if truthy cloudFrontDistributionProps
                     then overrideProps fw defaultprops cloudFrontDistributionProps
                     else defaultprops);
          (cfDistribution, t2) = newConstruct WebDistribution sc ''CloudFrontDistribution'' cfprops t1;
          (cfDistribution', t3) = updateSecurityPolicy cfDistribution t2
      in (cfDistribution, t3))"

section \<open>CloudFrontDistributionForS3\<close>

text \<open>
  Tokens of the framework: \<^verbatim>\<open>res.ref\<close>, an attribute \<^verbatim>\<open>res.attrX\<close>, the ARN pattern
  \<^verbatim>\<open>bucket.arnForObjects(p)\<close>, and the principal \<^verbatim>\<open>new iam.CanonicalUserPrincipal(id)\<close>,
  whose policy fragment is \<^verbatim>\<open>{ CanonicalUser: id }\<close> (an ARN principal's is
  \<^verbatim>\<open>{ AWS: arn }\<close>).
\<close>

definition refOf :: "nat \<Rightarrow> jsval" where
  "refOf a = JObj [(''Ref'', JRef a)]"

definition attrOf :: "nat \<Rightarrow> string \<Rightarrow> jsval" where
  "attrOf a name = JObj [(''Fn::GetAtt'', JArr [JRef a, JStr name])]"

definition arnForObjects :: "nat \<Rightarrow> string \<Rightarrow> jsval" where
  "arnForObjects b keyPattern = JObj [(''arnForObjects'', JArr [JRef b, JStr keyPattern])]"

definition CanonicalUserPrincipal :: "jsval \<Rightarrow> jsval" where
  "CanonicalUserPrincipal canonicalUserId = JObj [(''CanonicalUser'', canonicalUserId)]"

text \<open>
  \<^verbatim>\<open>bucket.addToResourcePolicy(statement)\<close>: the bucket's policy is created on first
  use, and the statement is appended to its document.
\<close>

definition addToResourcePolicy :: "nat \<Rightarrow> jsval \<Rightarrow> tree \<Rightarrow> tree" where
  "addToResourcePolicy b statement t =
     modify b (\<lambda>c. c\<lparr>policy :=
       Some (case policy c of
               None \<Rightarrow> \<lparr>statements = [statement], policy_metadata = JUndefined\<rparr>
             | Some p \<Rightarrow> p\<lparr>statements := statements p @ [statement]\<rparr>)\<rparr>) t"

text \<open>
  The assignment to \<^verbatim>\<open>cfnOptions.metadata\<close> of the \<^verbatim>\<open>Resource\<close> child of
  \<^verbatim>\<open>sourceBucket.policy\<close>. In the helper it follows \<^verbatim>\<open>addToResourcePolicy\<close>, so the
  policy is there.
\<close>

definition setPolicyMetadata :: "nat \<Rightarrow> jsval \<Rightarrow> tree \<Rightarrow> tree" where
  "setPolicyMetadata b md t =
     modify b (\<lambda>c. c\<lparr>policy := map_option (\<lambda>p. p\<lparr>policy_metadata := md\<rparr>) (policy c)\<rparr>) t"

definition f16_metadata :: jsval where
  "f16_metadata =
     JObj [(''cfn_nag'', JObj [(''rules_to_suppress'',
       JArr [JObj [(''id'', JStr ''F16''),
                   (''reason'', JStr ''Public website bucket policy requires a wildcard principal'')]])])]"

text \<open>
  Lines 158--190: the origin access identity and its import, the header-injection flag
  \<^verbatim>\<open>(httpSecurityHeaders !== undefined && httpSecurityHeaders === false) ? false : true\<close>,
  the edge-function version and the default configuration. The address of the identity
  is returned with the configuration, as the access grant uses it later.
\<close>

definition s3Defaultprops ::
  "collaborators \<Rightarrow> nat \<Rightarrow> nat \<Rightarrow> jsval \<Rightarrow> jsval \<Rightarrow> tree \<Rightarrow> (nat \<times> jsval) \<times> tree" where
  "s3Defaultprops fw sc sourceBucket cloudFrontDistributionProps httpSecurityHeaders t =
     (let (cfnOrigAccessId, t1) =
            newConstruct CfnOriginAccessIdentity sc ''CloudFrontOriginAccessIdentity''
              (JObj [(''cloudFrontOriginAccessIdentityConfig'',
                      JObj [(''comment'', JStr ''Access S3 bucket content only through CloudFront'')])]) t;
          (oaiImported, t2) =
            newConstruct ImportedOriginAccessIdentity sc ''OAIImported''
              (JObj [(''originAccessIdentityName'', refOf cfnOrigAccessId)]) t1;
          httpSecurityHeaders' =
            (if httpSecurityHeaders \<noteq> JUndefined \<and> httpSecurityHeaders = JBool False
             then False else True);
          (edgeLambdaVersion, t3) = edgeLambdaVersionIf httpSecurityHeaders' sc t2
      in if truthy cloudFrontDistributionProps
            \<and> truthy (getProp cloudFrontDistributionProps ''loggingConfig'')
         then ((cfnOrigAccessId,
                DefaultCloudFrontWebDistributionForS3Props fw (JRef sourceBucket)
                  (getProp (getProp cloudFrontDistributionProps ''loggingConfig'') ''bucket'')
                  (JRef oaiImported) (JBool httpSecurityHeaders') edgeLambdaVersion), t3)
         else (let (loggingBucket, t4) = createCloudfrontLoggingBucket fw sc t3
               in ((cfnOrigAccessId,
                    DefaultCloudFrontWebDistributionForS3Props fw (JRef sourceBucket)
                      (JRef loggingBucket) (JRef oaiImported) (JBool httpSecurityHeaders')
                      edgeLambdaVersion), t4)))"

text \<open>
  Lines 192--195: the merge, the distribution, the compliance patch. Constructing the
  distribution (line 194) is the framework's: besides registering the construct it adds
  to the source bucket's policy the statements \<open>distributionGrants\<close> gives for the
  configuration, in order. What the constructor may add to the policy of another bucket
  that a caller's configuration names as an origin is not modelled; nothing below is
  stated of such a bucket.
\<close>

definition s3Distribution ::
  "collaborators \<Rightarrow> nat \<Rightarrow> nat \<Rightarrow> jsval \<Rightarrow> jsval \<Rightarrow> tree \<Rightarrow> (nat \<times> nat) \<times> tree" where
  "s3Distribution fw sc sourceBucket cloudFrontDistributionProps httpSecurityHeaders t =
     (let ((cfnOrigAccessId, defaultprops), t1) =
            s3Defaultprops fw sc sourceBucket cloudFrontDistributionProps httpSecurityHeaders t;
          cfprops = (if truthy cloudFrontDistributionProps
                     then overrideProps fw defaultprops cloudFrontDistributionProps
                     else defaultprops);
          (cfDistribution, t2) = newConstruct WebDistribution sc ''CloudFrontDistribution'' cfprops t1;
          t2' = foldl (\<lambda>t' statement. addToResourcePolicy sourceBucket statement t') t2
                  (distributionGrants fw sourceBucket cfprops);
          (cfDistribution', t3) = updateSecurityPolicy cfDistribution t2'
      in ((cfnOrigAccessId, cfDistribution), t3))"

text \<open>Lines 197--214: the access grant on the source bucket and its annotation.\<close>

definition getObjectStatement :: "nat \<Rightarrow> nat \<Rightarrow> jsval" where
  "getObjectStatement sourceBucket cfnOrigAccessId =
     JObj [(''actions'', JArr [JStr ''s3:GetObject'']),
           (''resources'', JArr [arnForObjects sourceBucket ''*'']),
           (''principals'',
            JArr [CanonicalUserPrincipal (attrOf cfnOrigAccessId ''S3CanonicalUserId'')])]"

definition s3AccessGrant :: "nat \<Rightarrow> nat \<Rightarrow> tree \<Rightarrow> tree" where
  "s3AccessGrant sourceBucket cfnOrigAccessId t =
     (let t1 = addToResourcePolicy sourceBucket (getObjectStatement sourceBucket cfnOrigAccessId) t
      in setPolicyMetadata sourceBucket f16_metadata t1)"

definition CloudFrontDistributionForS3 ::
  "collaborators \<Rightarrow> nat \<Rightarrow> nat \<Rightarrow> jsval \<Rightarrow> jsval \<Rightarrow> tree \<Rightarrow> nat \<times> tree" where
  "CloudFrontDistributionForS3 fw sc sourceBucket cloudFrontDistributionProps
       httpSecurityHeaders t =
     (let ((cfnOrigAccessId, cfDistribution), t1) =
            s3Distribution fw sc sourceBucket cloudFrontDistributionProps httpSecurityHeaders t;
          t2 = s3AccessGrant sourceBucket cfnOrigAccessId t1
      in (cfDistribution, t2))"

section \<open>Observations on the result\<close>

text \<open>The constructs a call has added to the tree, and how many of them are of a kind.\<close>

definition created :: "tree \<Rightarrow> tree \<Rightarrow> construct list" where
  "created t t' = drop (length t) t'"

definition countKind :: "kind \<Rightarrow> construct list \<Rightarrow> nat" where
  "countKind k cs = length (filter (\<lambda>c. kind c = k) cs)"

text \<open>The compliance suppressions of a metadata block.\<close>

definition suppressions :: "jsval \<Rightarrow> jsval list" where
  "suppressions md = elems (getProp (getProp md ''cfn_nag'') ''rules_to_suppress'')"

text \<open>
  The default behaviours of a distribution configuration (over all its origins), and the
  edge-function versions attached to them.
\<close>

definition defaultBehaviors :: "jsval \<Rightarrow> jsval list" where
  "defaultBehaviors cfg =
     filter (\<lambda>b. truthy (getProp b ''isDefaultBehavior''))
       (concat (map (\<lambda>origin. elems (getProp origin ''behaviors''))
                  (elems (getProp cfg ''originConfigs''))))"

definition attachedEdgeFunctions :: "jsval \<Rightarrow> jsval list" where
  "attachedEdgeFunctions cfg =
     concat (map (\<lambda>b. map (\<lambda>a. getProp a ''lambdaFunction'')
                         (elems (getProp b ''lambdaFunctionAssociations'')))
               (defaultBehaviors cfg))"

text \<open>The origins of a configuration that are buckets, and the access-log destination.\<close>

definition s3Origins :: "jsval \<Rightarrow> jsval list" where
  "s3Origins cfg = map (\<lambda>origin. getProp origin ''s3OriginSource'') (elems (getProp cfg ''originConfigs''))"

definition logDestination :: "jsval \<Rightarrow> jsval" where
  "logDestination cfg = getProp (getProp cfg ''loggingConfig'') ''bucket''"

text \<open>
  The guard of both entry points on the caller's properties,
  \<^verbatim>\<open>cloudFrontDistributionProps && cloudFrontDistributionProps.loggingConfig\<close>, and
  the header-injection flag of the storage variant.
\<close>

definition callerLoggingConfig :: "jsval \<Rightarrow> bool" where
  "callerLoggingConfig p = (truthy p \<and> truthy (getProp p ''loggingConfig''))"

definition s3HeadersEnabled :: "jsval \<Rightarrow> bool" where
  "s3HeadersEnabled h = (h \<noteq> JBool False)"

section \<open>What a call leaves in the tree\<close>

text \<open>
  The constructs of the helper in their final state, as the symbolic execution of the
  definitions above yields them: the edge function (with its deletion override) and its
  version, the logging bucket (with its property override and annotations), the
  distribution (with the compliance patch), the origin access identity and its import;
  the list of constructs a storage-variant call creates before the distribution, the
  default configuration it resolves, and the source bucket after the statements \<open>ss\<close> of
  the distribution's construction and the access grant.
\<close>

definition edgeConstructs :: "nat \<Rightarrow> nat \<Rightarrow> construct list" where
  "edgeConstructs sc a =
     [\<lparr>kind = LambdaFunction, scope = sc, cid = ''SetHttpSecurityHeaders'',
       props = JObj [(''code'', inlineHandler), (''runtime'', JStr ''nodejs12.x''),
                     (''handler'', JStr ''index.handler'')],
       raw_overrides = [(''Properties.Environment'', None)],
       metadata = JUndefined, policy = None\<rparr>,
      \<lparr>kind = LambdaVersion, scope = sc, cid = ''SetHttpSecurityHeadersVersion'',
       props = JObj [(''lambda'', JRef a)], raw_overrides = [],
       metadata = JUndefined, policy = None\<rparr>]"

definition loggingBucketConstruct :: "collaborators \<Rightarrow> nat \<Rightarrow> construct" where
  "loggingBucketConstruct fw sc =
     \<lparr>kind = Bucket, scope = sc, cid = ''CloudfrontLoggingBucket'', props = DefaultS3Props fw,
      raw_overrides = [(''Properties.AccessControl'', Some (JStr ''LogDeliveryWrite''))],
      metadata = logging_metadata, policy = None\<rparr>"

definition distributionConstruct :: "nat \<Rightarrow> jsval \<Rightarrow> construct" where
  "distributionConstruct sc cfprops =
     \<lparr>kind = WebDistribution, scope = sc, cid = ''CloudFrontDistribution'', props = cfprops,
      raw_overrides = [], metadata = w70_metadata, policy = None\<rparr>"

definition originAccessConstructs :: "nat \<Rightarrow> nat \<Rightarrow> construct list" where
  "originAccessConstructs sc a =
     [\<lparr>kind = CfnOriginAccessIdentity, scope = sc, cid = ''CloudFrontOriginAccessIdentity'',
       props = JObj [(''cloudFrontOriginAccessIdentityConfig'',
                      JObj [(''comment'', JStr ''Access S3 bucket content only through CloudFront'')])],
       raw_overrides = [], metadata = JUndefined, policy = None\<rparr>,
      \<lparr>kind = ImportedOriginAccessIdentity, scope = sc, cid = ''OAIImported'',
       props = JObj [(''originAccessIdentityName'', refOf a)],
       raw_overrides = [], metadata = JUndefined, policy = None\<rparr>]"

definition s3New :: "collaborators \<Rightarrow> nat \<Rightarrow> nat \<Rightarrow> jsval \<Rightarrow> jsval \<Rightarrow> construct list" where
  "s3New fw sc a p h =
     originAccessConstructs sc a
     @ (if s3HeadersEnabled h then edgeConstructs sc (a + 2) else [])
     @ (if callerLoggingConfig p then [] else [loggingBucketConstruct fw sc])"

definition s3Config :: "collaborators \<Rightarrow> nat \<Rightarrow> nat \<Rightarrow> jsval \<Rightarrow> jsval \<Rightarrow> jsval" where
  "s3Config fw a sourceBucket p h =
     DefaultCloudFrontWebDistributionForS3Props fw (JRef sourceBucket)
       (if callerLoggingConfig p then logDestination p
        else JRef (a + (if s3HeadersEnabled h then 4 else 2)))
       (JRef (Suc a)) (JBool (s3HeadersEnabled h))
       (if s3HeadersEnabled h then JRef (a + 3) else JUndefined)"

definition policyStatements :: "construct \<Rightarrow> jsval list" where
  "policyStatements c = (case policy c of None \<Rightarrow> [] | Some q \<Rightarrow> statements q)"

definition withStatements :: "jsval list \<Rightarrow> construct \<Rightarrow> construct" where
  "withStatements ss c =
     (if ss = [] then c
      else c\<lparr>policy := Some \<lparr>statements = policyStatements c @ ss,
                             policy_metadata =
                               (case policy c of None \<Rightarrow> JUndefined
                                | Some q \<Rightarrow> policy_metadata q)\<rparr>\<rparr>)"

definition grantedPolicy :: "nat \<Rightarrow> nat \<Rightarrow> jsval list \<Rightarrow> construct \<Rightarrow> construct" where
  "grantedPolicy sourceBucket cfnOrigAccessId ss c =
     c\<lparr>policy := Some \<lparr>statements =
                         policyStatements c @ ss
                         @ [getObjectStatement sourceBucket cfnOrigAccessId],
                       policy_metadata = f16_metadata\<rparr>\<rparr>"

definition apiNew :: "collaborators \<Rightarrow> nat \<Rightarrow> nat \<Rightarrow> jsval \<Rightarrow> construct list" where
  "apiNew fw sc a p =
     edgeConstructs sc a
     @ (if callerLoggingConfig p then [] else [loggingBucketConstruct fw sc])"

definition apiConfig :: "collaborators \<Rightarrow> nat \<Rightarrow> jsval \<Rightarrow> jsval \<Rightarrow> jsval \<Rightarrow> jsval" where
  "apiConfig fw a apiEndPoint p h =
     DefaultCloudFrontWebDistributionForApiGatewayProps fw apiEndPoint
       (if callerLoggingConfig p then logDestination p else JRef (a + 2))
       (if truthy h then h else JBool True) (JRef (Suc a))"

definition finalConfig :: "collaborators \<Rightarrow> jsval \<Rightarrow> jsval \<Rightarrow> jsval" where
  "finalConfig fw defaultprops p =
     (if truthy p then overrideProps fw defaultprops p else defaultprops)"

section \<open>Example inputs\<close>

text \<open>
  Collaborators that resolve defaults and merge as the spec describes, with a framework
  that synthesizes an (empty) environment block for every construct and whose
  distribution adds one read grant to the source bucket's policy. A tree that holds a
  source bucket with one policy statement already (address 0), a bucket of the caller's
  for access logs (address 1) and an edge-function version of the caller's (address 2).
  A tree that holds a distribution whose resource carries metadata of the caller's
  (address 0) next to a bucket. Properties of a caller who names a log prefix only, of
  one who names a bucket, and of one who brings origins of their own, with the
  edge-function version at address 2 on the default behaviour.
\<close>

definition example_read_grant :: jsval where
  "example_read_grant =
     JObj [(''actions'', JArr [JStr ''s3:GetObject*'', JStr ''s3:GetBucket*'', JStr ''s3:List*''])]"

definition example_collaborators :: collaborators where
  "example_collaborators =
     \<lparr>DefaultS3Props = JObj [(''versioned'', JBool True)],
      DefaultCloudFrontWebDistributionForApiGatewayProps =
        specDefaultApiGatewayProps [(''priceClass'', JStr ''PriceClass_All'')],
      DefaultCloudFrontWebDistributionForS3Props =
        specDefaultS3Props [(''defaultRootObject'', JStr ''index.html'')],
      overrideProps = specOverrideProps,
      synthesize = (\<lambda>k p. (''Environment'', JObj []) # entries p),
      distributionGrants = (\<lambda>b cfg. [example_read_grant])\<rparr>"

definition example_tree :: tree where
  "example_tree =
     [\<lparr>kind = Bucket, scope = 0, cid = ''SourceBucket'', props = JObj [], raw_overrides = [],
       metadata = JUndefined,
       policy = Some \<lparr>statements = [JStr ''DenyInsecureTransport''], policy_metadata = JUndefined\<rparr>\<rparr>,
      \<lparr>kind = Bucket, scope = 0, cid = ''MyLogs'', props = JObj [], raw_overrides = [],
       metadata = JUndefined, policy = None\<rparr>,
      \<lparr>kind = LambdaVersion, scope = 0, cid = ''MyEdgeVersion'', props = JObj [],
       raw_overrides = [], metadata = JObj [(''owner'', JStr ''caller'')], policy = None\<rparr>]"


definition example_prefix_only :: jsval where
  "example_prefix_only = JObj [(''loggingConfig'', JObj [(''prefix'', JStr ''logs/'')])]"

definition example_own_logs :: jsval where
  "example_own_logs = JObj [(''loggingConfig'', JObj [(''bucket'', JRef 1), (''prefix'', JStr ''logs/'')])]"

definition example_own_origin :: jsval where
  "example_own_origin =
     JObj [(''originConfigs'',
            JArr [JObj [(''customOriginSource'', JObj [(''domainName'', JStr ''example.com'')]),
                        (''behaviors'',
                         JArr [JObj [(''isDefaultBehavior'', JBool True),
                                     (''lambdaFunctionAssociations'',
                                      JArr [JObj [(''eventType'', JStr ''origin-response''),
                                                  (''lambdaFunction'', JRef 2)]])]])]])]"

section \<open>Symbolic execution of the helper\<close>

lemma modify_Nil [simp]: "modify a f [] = []" by (simp add: modify_def)

lemma modify_Cons [simp]: "modify a f (c # cs) = (if a = 0 then f c # cs else c # modify (a - 1) f cs)"
  by (cases a) (simp_all add: modify_def)

lemma modify_append_new [simp]: "length t \<le> a \<Longrightarrow> modify a f (t @ cs) = t @ modify (a - length t) f cs"
  by (auto simp add: modify_def list_update_append nth_append)

lemma modify_append_old [simp]: "a < length t \<Longrightarrow> modify a f (t @ cs) = modify a f t @ cs"
  by (simp add: modify_def list_update_append nth_append)

lemma length_modify [simp]: "length (modify a f t) = length t" by (simp add: modify_def)

lemma edgeLambdaVersionIf_shape:
  "edgeLambdaVersionIf en sc t =
     (if en then (JRef (Suc (length t)), t @ edgeConstructs sc (length t)) else (JUndefined, t))"
  by (simp add: edgeLambdaVersionIf_def defaultLambdaEdgeFunction_def deployLambdaFunction_def
        newConstruct_def addDeletionOverride_def addOverride_def edgeConstructs_def)

lemma createCloudfrontLoggingBucket_shape:
  "createCloudfrontLoggingBucket fw sc t = (length t, t @ [loggingBucketConstruct fw sc])"
  by (simp add: createCloudfrontLoggingBucket_def newConstruct_def addPropertyOverride_def
        addOverride_def setMetadata_def loggingBucketConstruct_def)

lemma length_edgeConstructs [simp]: "length (edgeConstructs sc a) = 2" by (simp add: edgeConstructs_def)

lemma apiGatewayDefaultprops_shape:
  "apiGatewayDefaultprops fw sc api p h t =
     (apiConfig fw (length t) api p h, t @ apiNew fw sc (length t) p)"
  by (simp add: apiGatewayDefaultprops_def edgeLambdaVersionIf_shape
        createCloudfrontLoggingBucket_shape callerLoggingConfig_def logDestination_def
        apiConfig_def apiNew_def Let_def)

lemma api_shape:
  "CloudFrontDistributionForApiGateway fw sc api p h t =
     (length t + length (apiNew fw sc (length t) p),
      t @ apiNew fw sc (length t) p @
        [distributionConstruct sc (finalConfig fw (apiConfig fw (length t) api p h) p)])"
  by (simp add: CloudFrontDistributionForApiGateway_def apiGatewayDefaultprops_shape
        finalConfig_def newConstruct_def updateSecurityPolicy_def setMetadata_def
        distributionConstruct_def)

lemma nth_after_two:
  "length xs = n \<Longrightarrow> (xs @ ys @ [c]) ! (n + length ys) = c"
  by (auto simp add: nth_append)

lemma api_distribution:
  "snd (CloudFrontDistributionForApiGateway fw sc api p h t)
     ! fst (CloudFrontDistributionForApiGateway fw sc api p h t)
   = distributionConstruct sc (finalConfig fw (apiConfig fw (length t) api p h) p)"
  by (simp add: api_shape nth_after_two)

lemma api_created:
  "created t (snd (CloudFrontDistributionForApiGateway fw sc api p h t))
   = apiNew fw sc (length t) p
     @ [distributionConstruct sc (finalConfig fw (apiConfig fw (length t) api p h) p)]"
  by (simp add: api_shape created_def)

lemma length_originAccessConstructs [simp]: "length (originAccessConstructs sc a) = 2"
  by (simp add: originAccessConstructs_def)

lemma s3Defaultprops_shape:
  "s3Defaultprops fw sc b p h t =
     ((length t, s3Config fw (length t) b p h), t @ s3New fw sc (length t) p h)"
  by (simp add: s3Defaultprops_def edgeLambdaVersionIf_shape createCloudfrontLoggingBucket_shape
      callerLoggingConfig_def s3HeadersEnabled_def s3New_def s3Config_def newConstruct_def
      originAccessConstructs_def logDestination_def Let_def eval_nat_numeral)

lemma addToResourcePolicy_nth:
  assumes "b < length t"
  shows "addToResourcePolicy b s t = t[b := withStatements [s] (t ! b)]"
proof (cases "policy (t ! b)")
  case None
  with assms show ?thesis
    by (simp add: addToResourcePolicy_def modify_def withStatements_def policyStatements_def)
next
  case (Some q)
  with assms show ?thesis
    by (cases q)
       (simp add: addToResourcePolicy_def modify_def withStatements_def policyStatements_def)
qed

lemma withStatements_append:
  "withStatements [s] (withStatements ss c) = withStatements (ss @ [s]) c"
  by (cases "policy c") (simp_all add: withStatements_def policyStatements_def)

lemma foldl_addToResourcePolicy:
  "b < length t \<Longrightarrow>
   foldl (\<lambda>t' s. addToResourcePolicy b s t') t ss = t[b := withStatements ss (t ! b)]"
proof (induction ss rule: rev_induct)
  case Nil
  then show ?case by (simp add: withStatements_def)
next
  case (snoc s ss)
  then show ?case
    by (simp add: addToResourcePolicy_nth withStatements_append)
qed

lemma s3AccessGrant_nth:
  assumes "b < length t"
  shows "s3AccessGrant b a (t[b := withStatements ss (t ! b)])
           = t[b := grantedPolicy b a ss (t ! b)]"
proof (cases "policy (t ! b)")
  case None
  with assms show ?thesis
    by (simp add: s3AccessGrant_def addToResourcePolicy_def setPolicyMetadata_def modify_def
          grantedPolicy_def withStatements_def policyStatements_def)
next
  case (Some q)
  with assms show ?thesis
    by (cases q)
       (simp add: s3AccessGrant_def addToResourcePolicy_def setPolicyMetadata_def modify_def
          grantedPolicy_def withStatements_def policyStatements_def)
qed

lemma s3AccessGrant_append:
  "b < length t \<Longrightarrow> s3AccessGrant b a (t @ cs) = s3AccessGrant b a t @ cs"
  by (simp add: s3AccessGrant_def addToResourcePolicy_def setPolicyMetadata_def)

lemma length_s3AccessGrant [simp]: "length (s3AccessGrant b a t) = length t"
  by (simp add: s3AccessGrant_def addToResourcePolicy_def setPolicyMetadata_def)

lemma s3Distribution_shape:
  assumes "b < length t"
  shows "s3Distribution fw sc b p h t =
     ((length t, length t + length (s3New fw sc (length t) p h)),
      t[b := withStatements
               (distributionGrants fw b (finalConfig fw (s3Config fw (length t) b p h) p))
               (t ! b)]
      @ s3New fw sc (length t) p h @
        [distributionConstruct sc (finalConfig fw (s3Config fw (length t) b p h) p)])"
proof -
  have l: "b < length (t @ cs)" for cs :: "construct list"
    using assms by simp
  show ?thesis
    using assms
    by (simp add: s3Distribution_def s3Defaultprops_shape finalConfig_def newConstruct_def
          updateSecurityPolicy_def setMetadata_def distributionConstruct_def
          foldl_addToResourcePolicy [OF l] list_update_append nth_append Let_def)
qed

lemma s3_shape:
  assumes "b < length t"
  shows "CloudFrontDistributionForS3 fw sc b p h t =
     (length t + length (s3New fw sc (length t) p h),
      t[b := grantedPolicy b (length t)
               (distributionGrants fw b (finalConfig fw (s3Config fw (length t) b p h) p))
               (t ! b)]
      @ s3New fw sc (length t) p h @
        [distributionConstruct sc (finalConfig fw (s3Config fw (length t) b p h) p)])"
proof -
  have l: "b < length (t[b := c])" for c using assms by simp
  show ?thesis
    using assms
    by (simp add: CloudFrontDistributionForS3_def s3Distribution_shape [OF assms]
          s3AccessGrant_append [OF l] s3AccessGrant_nth [OF assms])
qed

lemma s3_distribution:
  "b < length t \<Longrightarrow>
   snd (CloudFrontDistributionForS3 fw sc b p h t)
     ! fst (CloudFrontDistributionForS3 fw sc b p h t)
   = distributionConstruct sc (finalConfig fw (s3Config fw (length t) b p h) p)"
  by (simp add: s3_shape nth_after_two)

lemma s3_created:
  "b < length t \<Longrightarrow>
   created t (snd (CloudFrontDistributionForS3 fw sc b p h t))
   = s3New fw sc (length t) p h
     @ [distributionConstruct sc (finalConfig fw (s3Config fw (length t) b p h) p)]"
  by (simp add: s3_shape created_def)

lemma s3_source_bucket:
  "b < length t \<Longrightarrow>
   snd (CloudFrontDistributionForS3 fw sc b p h t) ! b
   = grantedPolicy b (length t)
       (distributionGrants fw b (finalConfig fw (s3Config fw (length t) b p h) p)) (t ! b)"
  by (simp add: s3_shape nth_append)

lemma s3_new:
  "b < length t \<Longrightarrow> j < length (s3New fw sc (length t) p h) \<Longrightarrow>
   snd (CloudFrontDistributionForS3 fw sc b p h t) ! (length t + j)
   = s3New fw sc (length t) p h ! j"
  by (simp add: s3_shape nth_append)

lemma map_of_map_keyed:
  "map_of (map (\<lambda>(k, v). (k, g k v)) d) k = map_option (g k) (map_of d k)"
  by (induction d) auto

lemma map_of_filter_keyed:
  "map_of (filter (\<lambda>(k, w). P k) u) k = (if P k then map_of u k else None)"
  by (induction u) auto

lemma ownProp_specOverrideProps:
  "ownProp (specOverrideProps d u) k =
     (case ownProp u k of Some v \<Rightarrow> Some v | None \<Rightarrow> ownProp d k)"
  by (cases "map_of (entries d) k"; cases "map_of (entries u) k")
     (simp_all add: ownProp_def specOverrideProps_def map_add_def map_of_map_keyed
        map_of_filter_keyed)

lemma getProp_ownProp:
  "getProp v k = (case ownProp v k of Some x \<Rightarrow> x | None \<Rightarrow> JUndefined)"
  by (cases v) (simp_all add: ownProp_def)

lemma getProp_specOverrideProps:
  "getProp (specOverrideProps d u) k =
     (case ownProp u k of Some v \<Rightarrow> v | None \<Rightarrow> getProp d k)"
  by (simp add: getProp_ownProp [of "specOverrideProps d u"] getProp_ownProp [of d]
        ownProp_specOverrideProps split: option.splits)

lemma specOverrideProps_empty: "specOverrideProps (JObj d) (JObj []) = JObj d"
  by (simp add: specOverrideProps_def split_def)

lemma splitDots_Environment:
  "splitDots ''Properties.Environment'' = [''Properties'', ''Environment'']"
  by simp

lemma splitDots_AccessControl:
  "splitDots ''Properties.AccessControl'' = [''Properties'', ''AccessControl'']"
  by simp

lemma declaration_edge_function:
  "ownProp (getProp (resourceDeclaration fw (edgeConstructs sc a ! 0)) ''Properties'') ''Environment'' = None"
  by (simp add: resourceDeclaration_def edgeConstructs_def applyOverride_def splitDots_Environment
        ownProp_def delete_conv' del: splitDots.simps)

lemma declaration_logging_bucket:
  "ownProp (getProp (resourceDeclaration fw (loggingBucketConstruct fw sc)) ''Properties'') ''AccessControl''
     = Some (JStr ''LogDeliveryWrite'')"
  by (simp add: resourceDeclaration_def loggingBucketConstruct_def applyOverride_def
        splitDots_AccessControl ownProp_def update_conv' del: splitDots.simps)

lemma declaration_distribution:
  "suppressions (getProp (resourceDeclaration fw (distributionConstruct sc cfg)) ''Metadata'')
     = [JObj [(''id'', JStr ''W70''), (''reason'', JStr w70_reason)]]"
  by (simp add: resourceDeclaration_def distributionConstruct_def suppressions_def w70_metadata_def)

lemma edge_function_census:
  "map (\<lambda>c. ownProp (getProp (resourceDeclaration fw c) ''Properties'') ''Environment'')
       (filter (\<lambda>c. kind c = LambdaFunction) (edgeConstructs sc a)) = [None]
   \<and> map props (filter (\<lambda>c. kind c = LambdaVersion) (edgeConstructs sc a)) = [JObj [(''lambda'', JRef a)]]
   \<and> countKind LambdaFunction (edgeConstructs sc a) = 1
   \<and> countKind LambdaVersion (edgeConstructs sc a) = 1
   \<and> countKind Bucket (edgeConstructs sc a) = 0"
  using declaration_edge_function [of fw sc a]
  by (simp add: edgeConstructs_def countKind_def)

lemma other_census:
  "kind (loggingBucketConstruct fw sc) = Bucket"
  "kind (distributionConstruct sc cfg) = WebDistribution"
  "countKind k (originAccessConstructs sc a) = (if k = CfnOriginAccessIdentity \<or> k = ImportedOriginAccessIdentity then 1 else 0)"
  by (auto simp add: loggingBucketConstruct_def distributionConstruct_def originAccessConstructs_def countKind_def)

lemma filter_kind_originAccess:
  "k \<noteq> CfnOriginAccessIdentity \<Longrightarrow> k \<noteq> ImportedOriginAccessIdentity \<Longrightarrow>
   filter (\<lambda>c. kind c = k) (originAccessConstructs sc a) = []"
  by (simp add: originAccessConstructs_def)

lemma countKind_append [simp]: "countKind k (xs @ ys) = countKind k xs + countKind k ys"
  by (simp add: countKind_def)

lemma countKind_Cons [simp]: "countKind k (c # cs) = (if kind c = k then 1 else 0) + countKind k cs"
  by (simp add: countKind_def)

lemma countKind_Nil [simp]: "countKind k [] = 0"
  by (simp add: countKind_def)

lemma props_distributionConstruct [simp]: "props (distributionConstruct sc cfg) = cfg"
  by (simp add: distributionConstruct_def)

lemma logging_bucket_census:
  "map (\<lambda>c. (cid c, ownProp (getProp (resourceDeclaration fw c) ''Properties'') ''AccessControl''))
       (filter (\<lambda>c. kind c = Bucket) [loggingBucketConstruct fw sc])
     = [(''CloudfrontLoggingBucket'', Some (JStr ''LogDeliveryWrite''))]"
  using declaration_logging_bucket [of fw sc]
  by (simp add: other_census) (simp add: loggingBucketConstruct_def)

lemma filter_Bucket_edgeConstructs:
  "filter (\<lambda>c. kind c = Bucket) (edgeConstructs sc a) = []"
  by (simp add: edgeConstructs_def)

lemma getProp_defined_object: "getProp v k \<noteq> JUndefined \<Longrightarrow> truthy v \<and> ownProp v k = Some (getProp v k)"
  by (cases v) (auto simp add: ownProp_def split: option.splits)

lemma logDestination_callerLoggingConfig:
  assumes "logDestination p \<noteq> JUndefined"
  shows "callerLoggingConfig p"
    and "ownProp p ''loggingConfig'' = Some (getProp p ''loggingConfig'')"
proof -
  from assms have l: "truthy (getProp p ''loggingConfig'')"
    using getProp_defined_object [of "getProp p ''loggingConfig''" "''bucket''"]
    by (simp add: logDestination_def)
  then have "getProp p ''loggingConfig'' \<noteq> JUndefined" by auto
  from getProp_defined_object [OF this] l
  show "callerLoggingConfig p" and "ownProp p ''loggingConfig'' = Some (getProp p ''loggingConfig'')"
    by (simp_all add: callerLoggingConfig_def)
qed

lemma s3New_prefix:
  "s3New fw sc a p h ! 0 = originAccessConstructs sc a ! 0"
  "s3New fw sc a p h ! Suc 0 = originAccessConstructs sc a ! Suc 0"
  "s3New fw sc a p h \<noteq> []" "Suc 0 < length (s3New fw sc a p h)"
  by (simp_all add: s3New_def nth_append originAccessConstructs_def)

lemma s3New_logging_bucket:
  "\<not> callerLoggingConfig p \<Longrightarrow>
   s3New fw sc a p h ! (if h = JBool False then 2 else 4) = loggingBucketConstruct fw sc
   \<and> (if h = JBool False then 2 else 4) < length (s3New fw sc a p h)"
  by (simp add: s3New_def s3HeadersEnabled_def nth_append)

lemma attached_spec_api_defaults:
  "attachedEdgeFunctions (specDefaultApiGatewayProps fixed api l s e)
     = (if truthy s then [e] else [])"
  by (simp add: attachedEdgeFunctions_def defaultBehaviors_def defaultBehavior_def
        specDefaultApiGatewayProps_def)

lemma attached_spec_s3_defaults:
  "attachedEdgeFunctions (specDefaultS3Props fixed sb l oai s e)
     = (if truthy s then [e] else [])"
  by (simp add: attachedEdgeFunctions_def defaultBehaviors_def defaultBehavior_def
        specDefaultS3Props_def)

lemma s3Origins_spec_defaults:
  "s3Origins (specDefaultS3Props fixed sb l oai s e)
     = [JObj [(''s3BucketSource'', sb), (''originAccessIdentity'', oai)]]"
  by (simp add: s3Origins_def specDefaultS3Props_def)

lemma example_collaborators_fields:
  "overrideProps example_collaborators = specOverrideProps"
  "DefaultCloudFrontWebDistributionForApiGatewayProps example_collaborators
     = specDefaultApiGatewayProps [(''priceClass'', JStr ''PriceClass_All'')]"
  "DefaultCloudFrontWebDistributionForS3Props example_collaborators
     = specDefaultS3Props [(''defaultRootObject'', JStr ''index.html'')]"
  "synthesize example_collaborators = (\<lambda>k p. (''Environment'', JObj []) # entries p)"
  "DefaultS3Props example_collaborators = JObj [(''versioned'', JBool True)]"
  "distributionGrants example_collaborators = (\<lambda>b cfg. [example_read_grant])"
  by (simp_all add: example_collaborators_def)

lemma length_example_tree: "length example_tree = 3"
  by (simp add: example_tree_def)

lemma logDestination_specOverrideProps:
  assumes "logDestination p \<noteq> JUndefined"
  shows "logDestination (specOverrideProps d p) = logDestination p"
  using logDestination_callerLoggingConfig(2) [OF assms]
  by (simp add: logDestination_def getProp_specOverrideProps)

lemma ownProp_falsy: "\<not> truthy p \<Longrightarrow> ownProp p k = None"
  by (cases p) (simp_all add: ownProp_def)

lemma getProp_finalConfig_spec:
  "overrideProps fw = specOverrideProps \<Longrightarrow>
   getProp (finalConfig fw dp p) k
     = (case ownProp p k of Some v \<Rightarrow> v | None \<Rightarrow> getProp dp k)"
  by (simp add: finalConfig_def getProp_specOverrideProps ownProp_falsy)

lemma attachedEdgeFunctions_cong:
  "getProp c ''originConfigs'' = getProp c' ''originConfigs'' \<Longrightarrow>
   attachedEdgeFunctions c = attachedEdgeFunctions c'"
  by (simp add: attachedEdgeFunctions_def defaultBehaviors_def)

lemma s3Origins_cong:
  "getProp c ''originConfigs'' = getProp c' ''originConfigs'' \<Longrightarrow> s3Origins c = s3Origins c'"
  by (simp add: s3Origins_def)

lemma attached_finalConfig_spec:
  "overrideProps fw = specOverrideProps \<Longrightarrow> ownProp p ''originConfigs'' = None \<Longrightarrow>
   attachedEdgeFunctions (finalConfig fw dp p) = attachedEdgeFunctions dp"
  by (rule attachedEdgeFunctions_cong) (simp add: getProp_finalConfig_spec)

lemma s3Origins_finalConfig_spec:
  "overrideProps fw = specOverrideProps \<Longrightarrow> ownProp p ''originConfigs'' = None \<Longrightarrow>
   s3Origins (finalConfig fw dp p) = s3Origins dp"
  by (rule s3Origins_cong) (simp add: getProp_finalConfig_spec)

lemma no_AccessControl_edge:
  "filter (\<lambda>c. ownProp (getProp (resourceDeclaration example_collaborators c) ''Properties'') ''AccessControl''
                  = Some (JStr ''LogDeliveryWrite'')) (edgeConstructs sc a) = []"
  by (simp add: edgeConstructs_def resourceDeclaration_def applyOverride_def
        splitDots_Environment example_collaborators_fields ownProp_def delete_conv'
        del: splitDots.simps)

lemma no_AccessControl_originAccess:
  "filter (\<lambda>c. ownProp (getProp (resourceDeclaration example_collaborators c) ''Properties'') ''AccessControl''
                  = Some (JStr ''LogDeliveryWrite'')) (originAccessConstructs sc a) = []"
  by (simp add: originAccessConstructs_def resourceDeclaration_def
        example_collaborators_fields ownProp_def)

lemma declaration_distribution_properties:
  "getProp (resourceDeclaration fw (distributionConstruct sc cfg)) ''Properties''
     = JObj (synthesize fw WebDistribution cfg)"
  by (simp add: resourceDeclaration_def distributionConstruct_def)

lemma cid_census:
  "filter (\<lambda>c. cid c = ''CloudfrontLoggingBucket'') (edgeConstructs sc a) = []"
  "filter (\<lambda>c. cid c = ''CloudfrontLoggingBucket'') (originAccessConstructs sc a) = []"
  "cid (distributionConstruct sc cfg) \<noteq> ''CloudfrontLoggingBucket''"
  by (simp_all add: edgeConstructs_def originAccessConstructs_def distributionConstruct_def)

section \<open>The claims\<close>

subsection \<open>The compliance patch of the distribution\<close>



text \<open>
  C6. Whatever the arguments of either entry point (so whichever branch is taken), the
  construct returned is the distribution, and the declaration of its resource carries
  exactly one suppression: rule W70 with its (non-empty) justification. For the storage
  variant the source bucket is a construct of the tree.
\<close>

theorem distribution_carries_w70:
  "w70_reason \<noteq> []
   \<and> kind (snd (CloudFrontDistributionForApiGateway fw sc api p h t)
            ! fst (CloudFrontDistributionForApiGateway fw sc api p h t)) = WebDistribution
   \<and> suppressions (getProp (resourceDeclaration fw
        (snd (CloudFrontDistributionForApiGateway fw sc api p h t)
           ! fst (CloudFrontDistributionForApiGateway fw sc api p h t))) ''Metadata'')
       = [JObj [(''id'', JStr ''W70''), (''reason'', JStr w70_reason)]]
   \<and> (b < length t \<longrightarrow>
        kind (snd (CloudFrontDistributionForS3 fw sc b p h t)
               ! fst (CloudFrontDistributionForS3 fw sc b p h t)) = WebDistribution
        \<and> suppressions (getProp (resourceDeclaration fw
             (snd (CloudFrontDistributionForS3 fw sc b p h t)
                ! fst (CloudFrontDistributionForS3 fw sc b p h t))) ''Metadata'')
            = [JObj [(''id'', JStr ''W70''), (''reason'', JStr w70_reason)]])"
proof -
  have r: "w70_reason \<noteq> []" by (simp add: w70_reason_def)
  have k: "kind (distributionConstruct sc cfg) = WebDistribution" for cfg
    by (simp add: distributionConstruct_def)
  show ?thesis
    by (simp add: r k api_distribution s3_distribution declaration_distribution)
qed

text \<open>
  The API variant with a logging destination of the caller's and the flag
  \<^verbatim>\<open>false\<close>; the storage variant with no properties and no flag.
\<close>

theorem distribution_carries_w70_witness:
  "suppressions (getProp (resourceDeclaration example_collaborators
        (snd (CloudFrontDistributionForApiGateway example_collaborators 0 (JRef 5)
                example_own_logs (JBool False) example_tree)
           ! fst (CloudFrontDistributionForApiGateway example_collaborators 0 (JRef 5)
                example_own_logs (JBool False) example_tree))) ''Metadata'')
       = [JObj [(''id'', JStr ''W70''), (''reason'', JStr w70_reason)]]
   \<and> suppressions (getProp (resourceDeclaration example_collaborators
        (snd (CloudFrontDistributionForS3 example_collaborators 0 0 JUndefined JUndefined
                example_tree)
           ! fst (CloudFrontDistributionForS3 example_collaborators 0 0 JUndefined JUndefined
                example_tree))) ''Metadata'')
       = [JObj [(''id'', JStr ''W70''), (''reason'', JStr w70_reason)]]"
proof -
  have b: "(0::nat) < length example_tree" by (simp add: example_tree_def)
  from distribution_carries_w70 [of example_collaborators 0 "JRef 5" example_own_logs
         "JBool False" example_tree 0]
       distribution_carries_w70 [of example_collaborators 0 "JRef 5" JUndefined JUndefined
         example_tree 0]
       b
  show ?thesis by simp
qed

subsection \<open>Header injection\<close>

text \<open>
  C7. When the caller has not disabled header injection (the flag is anything but
  \<^verbatim>\<open>false\<close>: left out, or any other value), either entry point creates exactly one
  edge function and exactly one version, the version is a version of that function, and
  the declaration of the function's resource has no \<^verbatim>\<open>Environment\<close> block, whatever
  the framework synthesizes for the function (\<open>fw\<close> is arbitrary). For the storage
  variant the source bucket is a construct of the tree.
\<close>

theorem enabled_header_injection_creates_one_edge_function:
  assumes "h \<noteq> JBool False"
  shows
  "countKind LambdaFunction (created t (snd (CloudFrontDistributionForApiGateway fw sc api p h t))) = 1
   \<and> countKind LambdaVersion (created t (snd (CloudFrontDistributionForApiGateway fw sc api p h t))) = 1
   \<and> map props (filter (\<lambda>c. kind c = LambdaVersion)
        (created t (snd (CloudFrontDistributionForApiGateway fw sc api p h t))))
       = [JObj [(''lambda'', JRef (length t))]]
   \<and> kind (snd (CloudFrontDistributionForApiGateway fw sc api p h t) ! length t) = LambdaFunction
   \<and> map (\<lambda>c. ownProp (getProp (resourceDeclaration fw c) ''Properties'') ''Environment'')
        (filter (\<lambda>c. kind c = LambdaFunction)
           (created t (snd (CloudFrontDistributionForApiGateway fw sc api p h t))))
       = [None]
   \<and> (b < length t \<longrightarrow>
        countKind LambdaFunction (created t (snd (CloudFrontDistributionForS3 fw sc b p h t))) = 1
        \<and> countKind LambdaVersion (created t (snd (CloudFrontDistributionForS3 fw sc b p h t))) = 1
        \<and> map props (filter (\<lambda>c. kind c = LambdaVersion)
             (created t (snd (CloudFrontDistributionForS3 fw sc b p h t))))
            = [JObj [(''lambda'', JRef (length t + 2))]]
        \<and> kind (snd (CloudFrontDistributionForS3 fw sc b p h t) ! (length t + 2)) = LambdaFunction
        \<and> map (\<lambda>c. ownProp (getProp (resourceDeclaration fw c) ''Properties'') ''Environment'')
             (filter (\<lambda>c. kind c = LambdaFunction)
                (created t (snd (CloudFrontDistributionForS3 fw sc b p h t))))
            = [None])"
proof -
  note e = edge_function_census [of fw sc]
  have api_census:
    "countKind LambdaFunction (apiNew fw sc (length t) p) = 1
     \<and> countKind LambdaVersion (apiNew fw sc (length t) p) = 1
     \<and> map props (filter (\<lambda>c. kind c = LambdaVersion) (apiNew fw sc (length t) p))
         = [JObj [(''lambda'', JRef (length t))]]
     \<and> map (\<lambda>c. ownProp (getProp (resourceDeclaration fw c) ''Properties'') ''Environment'')
          (filter (\<lambda>c. kind c = LambdaFunction) (apiNew fw sc (length t) p))
         = [None]"
    by (simp add: apiNew_def e other_census)
  have api_first: "kind (snd (CloudFrontDistributionForApiGateway fw sc api p h t) ! length t)
                     = LambdaFunction"
    by (simp add: api_shape nth_append apiNew_def edgeConstructs_def)
  have s3_census:
    "countKind LambdaFunction (s3New fw sc (length t) p h) = 1
     \<and> countKind LambdaVersion (s3New fw sc (length t) p h) = 1
     \<and> map props (filter (\<lambda>c. kind c = LambdaVersion) (s3New fw sc (length t) p h))
         = [JObj [(''lambda'', JRef (length t + 2))]]
     \<and> map (\<lambda>c. ownProp (getProp (resourceDeclaration fw c) ''Properties'') ''Environment'')
          (filter (\<lambda>c. kind c = LambdaFunction) (s3New fw sc (length t) p h))
         = [None]"
    using assms
    by (simp add: s3New_def s3HeadersEnabled_def e other_census filter_kind_originAccess)
  have s3_third: "kind (s3New fw sc (length t) p h ! 2) = LambdaFunction
                  \<and> 2 < length (s3New fw sc (length t) p h)"
    using assms
    by (simp add: s3New_def s3HeadersEnabled_def originAccessConstructs_def edgeConstructs_def
          nth_append)
  have s3_function:
    "kind (snd (CloudFrontDistributionForS3 fw sc b p h t) ! (length t + 2)) = LambdaFunction"
    if "b < length t"
    using s3_new [OF that, of 2 fw sc p h] s3_third by simp
  show ?thesis
    using api_census api_first s3_census s3_function
    by (simp add: api_created s3_created other_census)
qed

text \<open>
  Both variants with the flag left out, on collaborators whose framework would
  synthesize an empty environment block for the function.
\<close>

theorem enabled_header_injection_witness:
  "ownProp (JObj (synthesize example_collaborators LambdaFunction (JObj []))) ''Environment'' = Some (JObj [])
   \<and> countKind LambdaFunction (created example_tree
        (snd (CloudFrontDistributionForApiGateway example_collaborators 0 (JRef 5) JUndefined JUndefined example_tree))) = 1
   \<and> countKind LambdaVersion (created example_tree
        (snd (CloudFrontDistributionForS3 example_collaborators 0 0 JUndefined JUndefined example_tree))) = 1
   \<and> map (\<lambda>c. ownProp (getProp (resourceDeclaration example_collaborators c) ''Properties'') ''Environment'')
        (filter (\<lambda>c. kind c = LambdaFunction)
           (created example_tree
              (snd (CloudFrontDistributionForS3 example_collaborators 0 0 JUndefined JUndefined example_tree))))
       = [None]"
proof -
  have h: "JUndefined \<noteq> JBool False" by simp
  have b: "(0::nat) < length example_tree" by (simp add: example_tree_def)
  have e: "ownProp (JObj (synthesize example_collaborators LambdaFunction (JObj []))) ''Environment'' = Some (JObj [])"
    by (simp add: example_collaborators_def ownProp_def)
  from enabled_header_injection_creates_one_edge_function
         [OF h, of example_tree example_collaborators 0 "JRef 5" JUndefined 0] b e
  show ?thesis by simp
qed

text \<open>
  C1, as the code has it. The API variant resolves the flag as
  \<^verbatim>\<open>httpSecurityHeaders ? httpSecurityHeaders : true\<close>: a flag that is left out
  (\<^verbatim>\<open>undefined\<close>) or is another falsy value that is not \<^verbatim>\<open>false\<close> (\<^verbatim>\<open>null\<close>,
  \<^verbatim>\<open>0\<close>, \<^verbatim>\<open>''\<close>) takes the default, enabled. One edge function is created, and one
  version of it, at the address after the function's; the defaults are resolved with
  the flag \<^verbatim>\<open>true\<close> and that version, and the distribution is created from them,
  merged with the caller's properties when there are any. When the resolver and the
  merge are as the spec describes them and the caller brings no \<^verbatim>\<open>originConfigs\<close> of
  their own, the default behaviour of the resulting distribution has exactly that
  version attached.
\<close>

theorem api_gateway_falsy_flag_keeps_header_injection:
  assumes "\<not> truthy h" and "h \<noteq> JBool False"
  shows "countKind LambdaFunction
           (created t (snd (CloudFrontDistributionForApiGateway fw sc api p h t))) = 1
       \<and> countKind LambdaVersion
           (created t (snd (CloudFrontDistributionForApiGateway fw sc api p h t))) = 1
       \<and> kind (snd (CloudFrontDistributionForApiGateway fw sc api p h t) ! length t)
           = LambdaFunction
       \<and> kind (snd (CloudFrontDistributionForApiGateway fw sc api p h t) ! Suc (length t))
           = LambdaVersion
       \<and> props (snd (CloudFrontDistributionForApiGateway fw sc api p h t) ! Suc (length t))
           = JObj [(''lambda'', JRef (length t))]
       \<and> fst (apiGatewayDefaultprops fw sc api p h t)
           = DefaultCloudFrontWebDistributionForApiGatewayProps fw api
               (if callerLoggingConfig p then logDestination p else JRef (length t + 2))
               (JBool True) (JRef (Suc (length t)))
       \<and> props (snd (CloudFrontDistributionForApiGateway fw sc api p h t)
                  ! fst (CloudFrontDistributionForApiGateway fw sc api p h t))
           = (if truthy p
              then overrideProps fw (fst (apiGatewayDefaultprops fw sc api p h t)) p
              else fst (apiGatewayDefaultprops fw sc api p h t))
       \<and> (overrideProps fw = specOverrideProps
            \<and> DefaultCloudFrontWebDistributionForApiGatewayProps fw
                = specDefaultApiGatewayProps fixed
            \<and> ownProp p ''originConfigs'' = None \<longrightarrow>
            attachedEdgeFunctions
              (props (snd (CloudFrontDistributionForApiGateway fw sc api p h t)
                        ! fst (CloudFrontDistributionForApiGateway fw sc api p h t)))
              = [JRef (Suc (length t))])"
proof -
  have v: "kind (snd (CloudFrontDistributionForApiGateway fw sc api p h t) ! length t)
             = LambdaFunction
           \<and> kind (snd (CloudFrontDistributionForApiGateway fw sc api p h t) ! Suc (length t))
             = LambdaVersion
           \<and> props (snd (CloudFrontDistributionForApiGateway fw sc api p h t) ! Suc (length t))
             = JObj [(''lambda'', JRef (length t))]"
    by (simp add: api_shape nth_append apiNew_def edgeConstructs_def)
  have counts: "countKind LambdaFunction
           (created t (snd (CloudFrontDistributionForApiGateway fw sc api p h t))) = 1
       \<and> countKind LambdaVersion
           (created t (snd (CloudFrontDistributionForApiGateway fw sc api p h t))) = 1"
    by (simp add: api_created apiNew_def edge_function_census other_census)
  have defaults: "fst (apiGatewayDefaultprops fw sc api p h t)
           = DefaultCloudFrontWebDistributionForApiGatewayProps fw api
               (if callerLoggingConfig p then logDestination p else JRef (length t + 2))
               (JBool True) (JRef (Suc (length t)))"
    using assms by (simp add: apiGatewayDefaultprops_shape apiConfig_def)
  have final: "props (snd (CloudFrontDistributionForApiGateway fw sc api p h t)
                  ! fst (CloudFrontDistributionForApiGateway fw sc api p h t))
           = finalConfig fw (fst (apiGatewayDefaultprops fw sc api p h t)) p"
    by (simp add: api_distribution apiGatewayDefaultprops_shape)
  have attached: "attachedEdgeFunctions
              (props (snd (CloudFrontDistributionForApiGateway fw sc api p h t)
                        ! fst (CloudFrontDistributionForApiGateway fw sc api p h t)))
              = [JRef (Suc (length t))]"
    if "overrideProps fw = specOverrideProps"
      and "DefaultCloudFrontWebDistributionForApiGatewayProps fw = specDefaultApiGatewayProps fixed"
      and "ownProp p ''originConfigs'' = None"
    using that
    by (simp add: final defaults attached_finalConfig_spec attached_spec_api_defaults)
  from v counts defaults final attached show ?thesis
    by (simp add: finalConfig_def)
qed

text \<open>The API variant with no properties and the flag \<^verbatim>\<open>0\<close>.\<close>

theorem api_gateway_falsy_flag_witness:
  "countKind LambdaFunction (created example_tree
      (snd (CloudFrontDistributionForApiGateway example_collaborators 0 (JRef 5) JUndefined
              (JNum 0) example_tree))) = 1
   \<and> countKind LambdaVersion (created example_tree
      (snd (CloudFrontDistributionForApiGateway example_collaborators 0 (JRef 5) JUndefined
              (JNum 0) example_tree))) = 1
   \<and> props (snd (CloudFrontDistributionForApiGateway example_collaborators 0 (JRef 5)
                   JUndefined (JNum 0) example_tree) ! 4)
       = JObj [(''lambda'', JRef 3)]
   \<and> attachedEdgeFunctions
        (props (snd (CloudFrontDistributionForApiGateway example_collaborators 0 (JRef 5)
                       JUndefined (JNum 0) example_tree)
                  ! fst (CloudFrontDistributionForApiGateway example_collaborators 0 (JRef 5)
                       JUndefined (JNum 0) example_tree)))
       = [JRef 4]"
proof -
  have f: "\<not> truthy (JNum 0)" and n: "JNum 0 \<noteq> JBool False" by simp_all
  have o: "ownProp JUndefined ''originConfigs'' = None" by (simp add: ownProp_def)
  from api_gateway_falsy_flag_keeps_header_injection
         [OF f n, of example_tree example_collaborators 0 "JRef 5" JUndefined
            "[(''priceClass'', JStr ''PriceClass_All'')]"] o
  show ?thesis
    by (simp add: example_collaborators_fields length_example_tree
          attached_spec_api_defaults)
qed

text \<open>
  C1 as stated fails: with the flag left out, which is falsy, the API variant creates an
  edge function, and the default behaviour of the distribution has its version attached.
\<close>

theorem api_gateway_omitted_flag_counterexample:
  "\<not> truthy JUndefined
   \<and> countKind LambdaFunction (created example_tree
        (snd (CloudFrontDistributionForApiGateway example_collaborators 0 (JRef 5) JUndefined
                JUndefined example_tree))) = 1
   \<and> attachedEdgeFunctions
        (props (snd (CloudFrontDistributionForApiGateway example_collaborators 0 (JRef 5)
                       JUndefined JUndefined example_tree)
                  ! fst (CloudFrontDistributionForApiGateway example_collaborators 0 (JRef 5)
                       JUndefined JUndefined example_tree)))
       = [JRef 4]"
  by (simp add: api_created api_distribution apiNew_def apiConfig_def finalConfig_def
        edge_function_census other_census attached_spec_api_defaults
        example_collaborators_fields length_example_tree)

text \<open>
  The same expression is truthy for \<^verbatim>\<open>false\<close> too, so the API variant cannot be told
  to leave header injection out: with the flag \<^verbatim>\<open>false\<close> the function and its
  version are created and handed to the resolver with the flag \<^verbatim>\<open>true\<close> all the
  same. (The storage variant tests \<^verbatim>\<open>=== false\<close>, see C8.)
\<close>

lemma api_gateway_false_still_injects_headers:
  "countKind LambdaFunction
     (created t (snd (CloudFrontDistributionForApiGateway fw sc api p (JBool False) t))) = 1
   \<and> countKind LambdaVersion
     (created t (snd (CloudFrontDistributionForApiGateway fw sc api p (JBool False) t))) = 1
   \<and> fst (apiGatewayDefaultprops fw sc api p (JBool False) t)
       = DefaultCloudFrontWebDistributionForApiGatewayProps fw api
           (if callerLoggingConfig p then logDestination p else JRef (length t + 2))
           (JBool True) (JRef (Suc (length t)))"
  by (simp add: api_created apiGatewayDefaultprops_shape apiNew_def apiConfig_def
        edge_function_census other_census)

text \<open>
  C8, as the code has it. The storage variant resolves the flag as
  \<^verbatim>\<open>(httpSecurityHeaders !== undefined && httpSecurityHeaders === false) ? false : true\<close>.
  With \<^verbatim>\<open>false\<close> it creates no edge function and no version, and resolves the
  defaults with the flag \<^verbatim>\<open>false\<close> and no version (\<^verbatim>\<open>undefined\<close>). With any other
  value (\<^verbatim>\<open>undefined\<close>, \<^verbatim>\<open>null\<close>, \<^verbatim>\<open>0\<close>, \<^verbatim>\<open>''\<close> among them) it creates one
  function and one version and resolves the defaults with the flag \<^verbatim>\<open>true\<close> and the
  new version: header injection stays enabled. The distribution is created from these
  defaults, merged with the caller's properties when there are any. When the resolver
  and the merge are as the spec describes them and the caller brings no
  \<^verbatim>\<open>originConfigs\<close> of their own, the default behaviour of the resulting distribution
  has no edge-function version attached in the first case, and exactly the new version
  in the second. The source bucket is a construct of the tree.
\<close>

theorem s3_header_injection_flag:
  assumes "b < length t"
  shows "countKind LambdaFunction (created t (snd (CloudFrontDistributionForS3 fw sc b p h t)))
           = (if h = JBool False then 0 else 1)
       \<and> countKind LambdaVersion (created t (snd (CloudFrontDistributionForS3 fw sc b p h t)))
           = (if h = JBool False then 0 else 1)
       \<and> snd (fst (s3Defaultprops fw sc b p h t))
           = DefaultCloudFrontWebDistributionForS3Props fw (JRef b)
               (if callerLoggingConfig p then logDestination p
                else JRef (length t + (if h = JBool False then 2 else 4)))
               (JRef (Suc (length t)))
               (JBool (h \<noteq> JBool False))
               (if h = JBool False then JUndefined else JRef (length t + 3))
       \<and> props (snd (CloudFrontDistributionForS3 fw sc b p h t)
                  ! fst (CloudFrontDistributionForS3 fw sc b p h t))
           = (if truthy p
              then overrideProps fw (snd (fst (s3Defaultprops fw sc b p h t))) p
              else snd (fst (s3Defaultprops fw sc b p h t)))
       \<and> (overrideProps fw = specOverrideProps
            \<and> DefaultCloudFrontWebDistributionForS3Props fw = specDefaultS3Props fixed
            \<and> ownProp p ''originConfigs'' = None \<longrightarrow>
            attachedEdgeFunctions
              (props (snd (CloudFrontDistributionForS3 fw sc b p h t)
                        ! fst (CloudFrontDistributionForS3 fw sc b p h t)))
              = (if h = JBool False then [] else [JRef (length t + 3)]))"
proof -
  have c: "countKind k (s3New fw sc (length t) p h) = (if h = JBool False then 0 else 1)"
    if "k = LambdaFunction \<or> k = LambdaVersion" for k
    using that
    by (auto simp add: s3New_def s3HeadersEnabled_def edge_function_census other_census)
  have counts: "countKind LambdaFunction (created t (snd (CloudFrontDistributionForS3 fw sc b p h t)))
           = (if h = JBool False then 0 else 1)
       \<and> countKind LambdaVersion (created t (snd (CloudFrontDistributionForS3 fw sc b p h t)))
           = (if h = JBool False then 0 else 1)"
    using assms by (simp add: s3_created c other_census)
  have defaults: "snd (fst (s3Defaultprops fw sc b p h t))
           = DefaultCloudFrontWebDistributionForS3Props fw (JRef b)
               (if callerLoggingConfig p then logDestination p
                else JRef (length t + (if h = JBool False then 2 else 4)))
               (JRef (Suc (length t)))
               (JBool (h \<noteq> JBool False))
               (if h = JBool False then JUndefined else JRef (length t + 3))"
    by (simp add: s3Defaultprops_shape s3Config_def s3HeadersEnabled_def)
  have final: "props (snd (CloudFrontDistributionForS3 fw sc b p h t)
                  ! fst (CloudFrontDistributionForS3 fw sc b p h t))
           = finalConfig fw (snd (fst (s3Defaultprops fw sc b p h t))) p"
    using assms by (simp add: s3_distribution s3Defaultprops_shape)
  have attached: "attachedEdgeFunctions
              (props (snd (CloudFrontDistributionForS3 fw sc b p h t)
                        ! fst (CloudFrontDistributionForS3 fw sc b p h t)))
              = (if h = JBool False then [] else [JRef (length t + 3)])"
    if "overrideProps fw = specOverrideProps"
      and "DefaultCloudFrontWebDistributionForS3Props fw = specDefaultS3Props fixed"
      and "ownProp p ''originConfigs'' = None"
    using that
    by (simp add: final defaults attached_finalConfig_spec attached_spec_s3_defaults)
  from counts defaults final attached show ?thesis
    by (simp add: finalConfig_def)
qed

text \<open>No properties; the flag \<^verbatim>\<open>false\<close>, and the falsy flag \<^verbatim>\<open>0\<close>.\<close>

theorem s3_header_injection_flag_witness:
  "countKind LambdaFunction (created example_tree
      (snd (CloudFrontDistributionForS3 example_collaborators 0 0 JUndefined (JBool False)
              example_tree))) = 0
   \<and> countKind LambdaVersion (created example_tree
      (snd (CloudFrontDistributionForS3 example_collaborators 0 0 JUndefined (JBool False)
              example_tree))) = 0
   \<and> attachedEdgeFunctions
        (props (snd (CloudFrontDistributionForS3 example_collaborators 0 0 JUndefined
                       (JBool False) example_tree)
                  ! fst (CloudFrontDistributionForS3 example_collaborators 0 0 JUndefined
                       (JBool False) example_tree)))
       = []
   \<and> countKind LambdaFunction (created example_tree
      (snd (CloudFrontDistributionForS3 example_collaborators 0 0 JUndefined (JNum 0)
              example_tree))) = 1
   \<and> attachedEdgeFunctions
        (props (snd (CloudFrontDistributionForS3 example_collaborators 0 0 JUndefined
                       (JNum 0) example_tree)
                  ! fst (CloudFrontDistributionForS3 example_collaborators 0 0 JUndefined
                       (JNum 0) example_tree)))
       = [JRef 6]"
proof -
  have b: "(0::nat) < length example_tree" by (simp add: length_example_tree)
  have o: "ownProp JUndefined ''originConfigs'' = None" by (simp add: ownProp_def)
  from s3_header_injection_flag [OF b, of example_collaborators 0 JUndefined "JBool False"
         "[(''defaultRootObject'', JStr ''index.html'')]"]
       s3_header_injection_flag [OF b, of example_collaborators 0 JUndefined "JNum 0"
         "[(''defaultRootObject'', JStr ''index.html'')]"] o
  show ?thesis
    by (simp add: example_collaborators_fields length_example_tree
          attached_spec_s3_defaults)
qed

text \<open>
  C8 as stated fails: with the flag \<^verbatim>\<open>false\<close> the storage variant creates no edge
  function, but the merge lets the caller's \<^verbatim>\<open>originConfigs\<close> replace those of the
  defaults. A caller whose own origin has a default behaviour with an edge-function
  version of theirs (the version at address 2 of the example tree) gets a distribution
  whose default behaviour has that version attached.
\<close>

theorem caller_origin_attaches_edge_function_counterexample:
  "kind (example_tree ! 2) = LambdaVersion
   \<and> countKind LambdaFunction (created example_tree
        (snd (CloudFrontDistributionForS3 example_collaborators 0 0 example_own_origin
                (JBool False) example_tree))) = 0
   \<and> attachedEdgeFunctions
        (props (snd (CloudFrontDistributionForS3 example_collaborators 0 0 example_own_origin
                       (JBool False) example_tree)
                  ! fst (CloudFrontDistributionForS3 example_collaborators 0 0
                       example_own_origin (JBool False) example_tree)))
       = [JRef 2]"
proof -
  have b: "(0::nat) < length example_tree" and k: "kind (example_tree ! 2) = LambdaVersion"
    by (simp_all add: example_tree_def)
  have a: "attachedEdgeFunctions (finalConfig example_collaborators dp example_own_origin)
             = [JRef 2]" for dp
    by (simp add: attachedEdgeFunctions_def defaultBehaviors_def getProp_finalConfig_spec
          example_collaborators_fields example_own_origin_def ownProp_def)
  from b k show ?thesis
    by (simp add: s3_created s3_distribution a s3New_def s3HeadersEnabled_def other_census)
qed

subsection \<open>The logging destination\<close>

text \<open>
  C2, as the code has it. The entry points test
  \<^verbatim>\<open>cloudFrontDistributionProps && cloudFrontDistributionProps.loggingConfig\<close>, not
  the bucket inside it. When the caller's properties are missing or falsy, or carry no
  truthy \<^verbatim>\<open>loggingConfig\<close>, either entry point creates exactly one bucket, the
  \<^verbatim>\<open>CloudfrontLoggingBucket\<close>, and the declaration of its resource has
  \<^verbatim>\<open>AccessControl\<close> overridden to \<^verbatim>\<open>LogDeliveryWrite\<close>, whatever the default bucket
  properties and the framework's synthesis are.
\<close>

theorem no_loggingConfig_creates_logging_bucket:
  assumes "\<not> callerLoggingConfig p"
  shows "countKind Bucket
           (created t (snd (CloudFrontDistributionForApiGateway fw sc api p h t))) = 1
       \<and> map (\<lambda>c. (cid c, ownProp (getProp (resourceDeclaration fw c) ''Properties'') ''AccessControl''))
           (filter (\<lambda>c. kind c = Bucket)
              (created t (snd (CloudFrontDistributionForApiGateway fw sc api p h t))))
          = [(''CloudfrontLoggingBucket'', Some (JStr ''LogDeliveryWrite''))]
       \<and> (b < length t \<longrightarrow>
            countKind Bucket (created t (snd (CloudFrontDistributionForS3 fw sc b p h t))) = 1
            \<and> map (\<lambda>c. (cid c, ownProp (getProp (resourceDeclaration fw c) ''Properties'') ''AccessControl''))
                (filter (\<lambda>c. kind c = Bucket)
                   (created t (snd (CloudFrontDistributionForS3 fw sc b p h t))))
               = [(''CloudfrontLoggingBucket'', Some (JStr ''LogDeliveryWrite''))])"
  using assms logging_bucket_census [of fw sc]
  by (simp add: api_created s3_created apiNew_def s3New_def edge_function_census other_census
        filter_Bucket_edgeConstructs filter_kind_originAccess)

text \<open>Both variants for a caller who passes \<^verbatim>\<open>{ loggingConfig: null }\<close>.\<close>

theorem no_loggingConfig_witness:
  "\<not> callerLoggingConfig (JObj [(''loggingConfig'', JNull)])
   \<and> countKind Bucket (created example_tree
        (snd (CloudFrontDistributionForApiGateway example_collaborators 0 (JRef 5)
                (JObj [(''loggingConfig'', JNull)]) JUndefined example_tree))) = 1
   \<and> map (\<lambda>c. (cid c, ownProp (getProp (resourceDeclaration example_collaborators c) ''Properties'') ''AccessControl''))
        (filter (\<lambda>c. kind c = Bucket)
           (created example_tree
              (snd (CloudFrontDistributionForS3 example_collaborators 0 0
                      (JObj [(''loggingConfig'', JNull)]) JUndefined example_tree))))
       = [(''CloudfrontLoggingBucket'', Some (JStr ''LogDeliveryWrite''))]"
proof -
  have n: "\<not> callerLoggingConfig (JObj [(''loggingConfig'', JNull)])"
    by (simp add: callerLoggingConfig_def)
  have b: "(0::nat) < length example_tree" by (simp add: example_tree_def)
  from no_loggingConfig_creates_logging_bucket [OF n, of example_tree example_collaborators 0
         "JRef 5" JUndefined 0] n b
  show ?thesis by simp
qed

text \<open>
  C2 as stated fails: a caller who passes \<^verbatim>\<open>{ loggingConfig: { prefix: 'logs/' } }\<close>
  supplies no \<^verbatim>\<open>loggingConfig.bucket\<close>, yet neither entry point calls
  \<^verbatim>\<open>createCloudfrontLoggingBucket\<close>: among the constructs the helper creates there is
  no \<^verbatim>\<open>CloudfrontLoggingBucket\<close>, and none whose declaration has \<^verbatim>\<open>AccessControl\<close>
  overridden to \<^verbatim>\<open>LogDeliveryWrite\<close>. Whatever bucket the distribution then gives
  itself is the framework's own and gets no override from the helper.
\<close>

theorem prefix_only_loggingConfig_counterexample:
  "ownProp (getProp example_prefix_only ''loggingConfig'') ''bucket'' = None
   \<and> filter (\<lambda>c. ownProp (getProp (resourceDeclaration example_collaborators c) ''Properties'')
                     ''AccessControl'' = Some (JStr ''LogDeliveryWrite''))
        (created example_tree
           (snd (CloudFrontDistributionForApiGateway example_collaborators 0 (JRef 5)
                   example_prefix_only JUndefined example_tree))) = []
   \<and> filter (\<lambda>c. cid c = ''CloudfrontLoggingBucket'')
        (created example_tree
           (snd (CloudFrontDistributionForApiGateway example_collaborators 0 (JRef 5)
                   example_prefix_only JUndefined example_tree))) = []
   \<and> filter (\<lambda>c. ownProp (getProp (resourceDeclaration example_collaborators c) ''Properties'')
                     ''AccessControl'' = Some (JStr ''LogDeliveryWrite''))
        (created example_tree
           (snd (CloudFrontDistributionForS3 example_collaborators 0 0
                   example_prefix_only JUndefined example_tree))) = []
   \<and> filter (\<lambda>c. cid c = ''CloudfrontLoggingBucket'')
        (created example_tree
           (snd (CloudFrontDistributionForS3 example_collaborators 0 0
                   example_prefix_only JUndefined example_tree))) = []"
proof -
  have c: "callerLoggingConfig example_prefix_only"
    by (simp add: callerLoggingConfig_def example_prefix_only_def)
  have b: "(0::nat) < length example_tree" by (simp add: length_example_tree)
  have o: "ownProp (getProp example_prefix_only ''loggingConfig'') ''bucket'' = None"
    by (simp add: example_prefix_only_def ownProp_def)
  have d: "ownProp (JObj (synthesize example_collaborators WebDistribution
                            (finalConfig example_collaborators dp example_prefix_only)))
             ''AccessControl'' = None"
    if "ownProp dp ''AccessControl'' = None" for dp
    using that
    by (simp add: example_collaborators_fields finalConfig_def example_prefix_only_def
          ownProp_specOverrideProps [unfolded ownProp_def] ownProp_def)
  have da: "ownProp (apiConfig example_collaborators a api p h) ''AccessControl'' = None"
    for a api p h
    by (simp add: apiConfig_def example_collaborators_fields specDefaultApiGatewayProps_def
          ownProp_def)
  have ds: "ownProp (s3Config example_collaborators a sb p h) ''AccessControl'' = None"
    for a sb p h
    by (simp add: s3Config_def example_collaborators_fields specDefaultS3Props_def
          ownProp_def)
  show ?thesis
    using b c o
    by (simp add: api_created s3_created apiNew_def s3New_def no_AccessControl_edge
          no_AccessControl_originAccess declaration_distribution_properties d [OF da]
          d [OF ds] cid_census)
qed

text \<open>
  C9. When the caller's properties carry a \<^verbatim>\<open>loggingConfig.bucket\<close>, neither entry
  point creates a bucket; the defaults are resolved with the caller's bucket as the
  logging destination, and the distribution is created from the merge of the caller's
  properties over them. A merge as the spec describes it leaves the caller's bucket as
  the access-log destination of the result.
\<close>

theorem caller_logging_destination_is_used:
  assumes "logDestination p \<noteq> JUndefined"
  shows "countKind Bucket
           (created t (snd (CloudFrontDistributionForApiGateway fw sc api p h t))) = 0
       \<and> fst (apiGatewayDefaultprops fw sc api p h t)
           = DefaultCloudFrontWebDistributionForApiGatewayProps fw api (logDestination p)
               (if truthy h then h else JBool True) (JRef (Suc (length t)))
       \<and> props (snd (CloudFrontDistributionForApiGateway fw sc api p h t)
                  ! fst (CloudFrontDistributionForApiGateway fw sc api p h t))
           = overrideProps fw (fst (apiGatewayDefaultprops fw sc api p h t)) p
       \<and> logDestination (specOverrideProps d p) = logDestination p
       \<and> (b < length t \<longrightarrow>
            countKind Bucket (created t (snd (CloudFrontDistributionForS3 fw sc b p h t))) = 0
            \<and> snd (fst (s3Defaultprops fw sc b p h t))
                = DefaultCloudFrontWebDistributionForS3Props fw (JRef b) (logDestination p)
                    (JRef (Suc (length t))) (JBool (h \<noteq> JBool False))
                    (if h = JBool False then JUndefined else JRef (length t + 3))
            \<and> props (snd (CloudFrontDistributionForS3 fw sc b p h t)
                       ! fst (CloudFrontDistributionForS3 fw sc b p h t))
                = overrideProps fw (snd (fst (s3Defaultprops fw sc b p h t))) p)"
proof -
  note c = logDestination_callerLoggingConfig [OF assms]
  from c(1) have tp: "truthy p" by (simp add: callerLoggingConfig_def)
  show ?thesis
    using c(1) tp logDestination_specOverrideProps [OF assms, of d]
    by (simp add: api_created s3_created api_distribution s3_distribution
          apiGatewayDefaultprops_shape s3Defaultprops_shape apiNew_def s3New_def apiConfig_def
          s3Config_def s3HeadersEnabled_def finalConfig_def edge_function_census other_census)
qed

text \<open>
  Both variants for a caller whose \<^verbatim>\<open>loggingConfig\<close> names the bucket at address 1.
\<close>

theorem caller_logging_destination_witness:
  "logDestination example_own_logs = JRef 1
   \<and> countKind Bucket (created example_tree
        (snd (CloudFrontDistributionForApiGateway example_collaborators 0 (JRef 5)
                example_own_logs JUndefined example_tree))) = 0
   \<and> logDestination
        (props (snd (CloudFrontDistributionForApiGateway example_collaborators 0 (JRef 5)
                       example_own_logs JUndefined example_tree)
                  ! fst (CloudFrontDistributionForApiGateway example_collaborators 0 (JRef 5)
                       example_own_logs JUndefined example_tree)))
       = JRef 1
   \<and> countKind Bucket (created example_tree
        (snd (CloudFrontDistributionForS3 example_collaborators 0 0
                example_own_logs JUndefined example_tree))) = 0
   \<and> logDestination
        (props (snd (CloudFrontDistributionForS3 example_collaborators 0 0
                       example_own_logs JUndefined example_tree)
                  ! fst (CloudFrontDistributionForS3 example_collaborators 0 0
                       example_own_logs JUndefined example_tree)))
       = JRef 1"
proof -
  have l: "logDestination example_own_logs = JRef 1"
    by (simp add: logDestination_def example_own_logs_def)
  then have n: "logDestination example_own_logs \<noteq> JUndefined" by simp
  have b: "(0::nat) < length example_tree" by (simp add: length_example_tree)
  have m: "logDestination (specOverrideProps d example_own_logs) = JRef 1" for d
    using logDestination_specOverrideProps [OF n, of d] l by simp
  from caller_logging_destination_is_used [OF n, of example_tree example_collaborators 0
         "JRef 5" JUndefined JNull 0] l b
  show ?thesis by (simp add: example_collaborators_fields m)
qed

subsection \<open>The override merge\<close>

text \<open>
  C3. The merge, as the spec has it, is shallow. For every default object \<open>d\<close>, override
  object \<open>u\<close> and key \<open>k\<close>: a key of the override has the override's value in the merged
  object, whole (whether or not the defaults have the key, and whatever they hold there);
  a key absent from the override keeps the value of the defaults. And the configuration
  of the distribution either entry point creates for a caller's object \<open>u\<close> is
  \<^verbatim>\<open>overrideProps\<close> of the defaults it has resolved and \<open>u\<close>.
\<close>

theorem override_replaces_top_level_keys:
  "(map_of u k = Some y \<longrightarrow> ownProp (specOverrideProps (JObj d) (JObj u)) k = Some y)
   \<and> (map_of u k = None \<longrightarrow> ownProp (specOverrideProps (JObj d) (JObj u)) k = map_of d k)
   \<and> props (snd (CloudFrontDistributionForApiGateway fw sc api (JObj u) h t)
              ! fst (CloudFrontDistributionForApiGateway fw sc api (JObj u) h t))
       = overrideProps fw (fst (apiGatewayDefaultprops fw sc api (JObj u) h t)) (JObj u)
   \<and> (b < length t \<longrightarrow>
        props (snd (CloudFrontDistributionForS3 fw sc b (JObj u) h t)
                 ! fst (CloudFrontDistributionForS3 fw sc b (JObj u) h t))
          = overrideProps fw (snd (fst (s3Defaultprops fw sc b (JObj u) h t))) (JObj u))"
proof -
  have o: "ownProp (JObj u) k = map_of u k" and o': "ownProp (JObj d) k = map_of d k"
    by (simp_all add: ownProp_def)
  show ?thesis
    by (simp add: ownProp_specOverrideProps o o' api_distribution s3_distribution
          apiGatewayDefaultprops_shape s3Defaultprops_shape finalConfig_def)
qed

text \<open>
  The caller passes \<^verbatim>\<open>{ loggingConfig: { prefix: 'logs/' } }\<close>: the default
  \<^verbatim>\<open>loggingConfig\<close> (with its \<^verbatim>\<open>bucket\<close>) is replaced by the caller's object as
  it is, and \<^verbatim>\<open>defaultRootObject\<close>, which the caller does not mention, keeps its
  default.
\<close>

theorem override_replaces_top_level_keys_witness:
  "ownProp (fst (apiGatewayDefaultprops example_collaborators 0 (JRef 5) example_prefix_only
                   JUndefined example_tree)) ''loggingConfig''
     = Some (JObj [(''bucket'', JUndefined)])
   \<and> ownProp (props (snd (CloudFrontDistributionForApiGateway example_collaborators 0 (JRef 5)
                            example_prefix_only JUndefined example_tree)
                       ! fst (CloudFrontDistributionForApiGateway example_collaborators 0 (JRef 5)
                            example_prefix_only JUndefined example_tree))) ''loggingConfig''
       = Some (JObj [(''prefix'', JStr ''logs/'')])
   \<and> ownProp (props (snd (CloudFrontDistributionForS3 example_collaborators 0 0
                            example_prefix_only JUndefined example_tree)
                       ! fst (CloudFrontDistributionForS3 example_collaborators 0 0
                            example_prefix_only JUndefined example_tree))) ''defaultRootObject''
       = Some (JStr ''index.html'')"
proof -
  have b: "(0::nat) < length example_tree" by (simp add: length_example_tree)
  have c: "callerLoggingConfig (JObj [(''loggingConfig'', JObj [(''prefix'', JStr ''logs/'')])])"
    by (simp add: callerLoggingConfig_def)
  have a: "fst (apiGatewayDefaultprops example_collaborators 0 (JRef 5) example_prefix_only
                   JUndefined example_tree)
             = specDefaultApiGatewayProps [(''priceClass'', JStr ''PriceClass_All'')] (JRef 5)
                 JUndefined (JBool True) (JRef 4)"
    and d: "snd (fst (s3Defaultprops example_collaborators 0 0 example_prefix_only
                   JUndefined example_tree))
             = specDefaultS3Props [(''defaultRootObject'', JStr ''index.html'')] (JRef 0)
                 JUndefined (JRef 4) (JBool True) (JRef 6)"
    using c
    by (simp_all add: apiGatewayDefaultprops_shape s3Defaultprops_shape apiConfig_def
          s3Config_def s3HeadersEnabled_def logDestination_def example_prefix_only_def
          example_collaborators_fields length_example_tree)
  have u: "ownProp (specOverrideProps (JObj dd) example_prefix_only) k
             = (case map_of [(''loggingConfig'', JObj [(''prefix'', JStr ''logs/'')])] k of
                  Some y \<Rightarrow> Some y | None \<Rightarrow> map_of dd k)" for dd k
    using override_replaces_top_level_keys
            [of "[(''loggingConfig'', JObj [(''prefix'', JStr ''logs/'')])]" k _ dd
                example_collaborators 0 "JRef 5" JUndefined example_tree 0]
    by (auto simp add: example_prefix_only_def split: option.splits)
  from override_replaces_top_level_keys
         [of "[(''loggingConfig'', JObj [(''prefix'', JStr ''logs/'')])]" "''loggingConfig''"
             JNull "[]" example_collaborators 0 "JRef 5" JUndefined example_tree 0] b
  have e: "props (snd (CloudFrontDistributionForApiGateway example_collaborators 0 (JRef 5)
                            example_prefix_only JUndefined example_tree)
                       ! fst (CloudFrontDistributionForApiGateway example_collaborators 0 (JRef 5)
                            example_prefix_only JUndefined example_tree))
        = specOverrideProps (fst (apiGatewayDefaultprops example_collaborators 0 (JRef 5)
               example_prefix_only JUndefined example_tree)) example_prefix_only"
    and f: "props (snd (CloudFrontDistributionForS3 example_collaborators 0 0
                            example_prefix_only JUndefined example_tree)
                       ! fst (CloudFrontDistributionForS3 example_collaborators 0 0
                            example_prefix_only JUndefined example_tree))
        = specOverrideProps (snd (fst (s3Defaultprops example_collaborators 0 0
               example_prefix_only JUndefined example_tree))) example_prefix_only"
    by (simp_all add: example_prefix_only_def example_collaborators_fields)
  show ?thesis
    by (simp add: e f a d)
       (simp add: specDefaultApiGatewayProps_def specDefaultS3Props_def u, simp add: ownProp_def)
qed

text \<open>
  C4. Merging the empty object, as the spec has the merge, onto a default configuration
  gives that configuration back, field for field: for any object, and for what either
  resolver of the spec returns. And for a caller who passes \<^verbatim>\<open>{}\<close> (which is truthy)
  either entry point does create the distribution from \<^verbatim>\<open>overrideProps\<close> of the
  defaults it has resolved and \<^verbatim>\<open>{}\<close>.
\<close>

theorem empty_override_keeps_defaults:
  "specOverrideProps (JObj d) (JObj []) = JObj d
   \<and> specOverrideProps (specDefaultApiGatewayProps fixed api l s e) (JObj [])
       = specDefaultApiGatewayProps fixed api l s e
   \<and> specOverrideProps (specDefaultS3Props fixed sb l oai s e) (JObj [])
       = specDefaultS3Props fixed sb l oai s e
   \<and> props (snd (CloudFrontDistributionForApiGateway fw sc api (JObj []) h t)
              ! fst (CloudFrontDistributionForApiGateway fw sc api (JObj []) h t))
       = overrideProps fw (fst (apiGatewayDefaultprops fw sc api (JObj []) h t)) (JObj [])
   \<and> (b < length t \<longrightarrow>
        props (snd (CloudFrontDistributionForS3 fw sc b (JObj []) h t)
                 ! fst (CloudFrontDistributionForS3 fw sc b (JObj []) h t))
          = overrideProps fw (snd (fst (s3Defaultprops fw sc b (JObj []) h t))) (JObj []))"
  by (simp add: specOverrideProps_empty api_distribution s3_distribution finalConfig_def
        apiGatewayDefaultprops_shape s3Defaultprops_shape specDefaultApiGatewayProps_def
        specDefaultS3Props_def)

text \<open>The storage variant called with \<^verbatim>\<open>{}\<close> and the flag \<^verbatim>\<open>false\<close>.\<close>

theorem empty_override_keeps_defaults_witness:
  "snd (fst (s3Defaultprops example_collaborators 0 0 (JObj []) (JBool False) example_tree))
     = JObj [(''originConfigs'',
              JArr [JObj [(''s3OriginSource'',
                           JObj [(''s3BucketSource'', JRef 0), (''originAccessIdentity'', JRef 4)]),
                          (''behaviors'', JArr [JObj [(''isDefaultBehavior'', JBool True)]])]]),
             (''loggingConfig'', JObj [(''bucket'', JRef 5)]),
             (''defaultRootObject'', JStr ''index.html'')]
   \<and> props (snd (CloudFrontDistributionForS3 example_collaborators 0 0 (JObj []) (JBool False)
                   example_tree)
              ! fst (CloudFrontDistributionForS3 example_collaborators 0 0 (JObj []) (JBool False)
                   example_tree))
     = snd (fst (s3Defaultprops example_collaborators 0 0 (JObj []) (JBool False) example_tree))"
proof -
  have b: "(0::nat) < length example_tree" by (simp add: length_example_tree)
  have d: "snd (fst (s3Defaultprops example_collaborators 0 0 (JObj []) (JBool False) example_tree))
     = specDefaultS3Props [(''defaultRootObject'', JStr ''index.html'')] (JRef 0) (JRef 5)
         (JRef 4) (JBool False) JUndefined"
    by (simp add: s3Defaultprops_shape s3Config_def callerLoggingConfig_def s3HeadersEnabled_def
          example_collaborators_fields length_example_tree)
  from empty_override_keeps_defaults [where fw = example_collaborators and sc = 0 and b = 0
         and h = "JBool False" and t = example_tree
         and fixed = "[(''defaultRootObject'', JStr ''index.html'')]" and sb = "JRef 0"
         and l = "JRef 5" and oai = "JRef 4" and s = "JBool False" and e = JUndefined] b
  show ?thesis
    by (simp add: d example_collaborators_fields)
       (simp add: specDefaultS3Props_def defaultBehavior_def)
qed

subsection \<open>The storage-variant scenario\<close>

text \<open>
  C5, as the code has it. The storage variant is called with a source bucket \<open>b\<close> of
  the tree and with properties that carry no \<^verbatim>\<open>loggingConfig\<close>. Then, with \<open>R\<close>
  the result, \<open>L\<close> the address of the new logging bucket and \<open>cfg\<close> the
  configuration of the distribution returned:
  \<^item> the defaults are resolved with \<open>b\<close> as the origin bucket and the imported origin
    access identity, a new construct that names the new
    \<^verbatim>\<open>CloudFrontOriginAccessIdentity\<close>, and with \<open>L\<close> as the logging destination;
    \<open>cfg\<close> is these defaults, merged with the caller's properties when there are any;
  \<^item> when the resolver and the merge are as the spec describes them and the caller
    brings no \<^verbatim>\<open>originConfigs\<close> of their own, the one bucket origin of \<open>cfg\<close> is
    \<open>b\<close> with that identity;
  \<^item> exactly one bucket is created, the \<^verbatim>\<open>CloudfrontLoggingBucket\<close> at \<open>L\<close>, which is
    not \<open>b\<close>;
  \<^item> the policy of \<open>b\<close> is made of the statements it had before the call, then the
    statements that the construction of the distribution from \<open>cfg\<close> adds to it, then
    one more statement, the last: action \<^verbatim>\<open>s3:GetObject\<close>, resource all objects of
    \<open>b\<close>, principal the canonical user (the \<^verbatim>\<open>S3CanonicalUserId\<close> attribute) of the
    new identity. The helper's statement comes after those of the distribution's
    construction: it is appended once the distribution has been created;
  \<^item> the metadata of the policy resource is exactly one suppression, rule F16 with its
    justification.
\<close>

theorem s3_scenario_without_logging_config:
  assumes "b < length t" and "\<not> callerLoggingConfig p"
  shows
   "(let R = CloudFrontDistributionForS3 fw sc b p h t;
         L = length t + (if h = JBool False then 2 else 4);
         cfg = props (snd R ! fst R)
     in snd (fst (s3Defaultprops fw sc b p h t))
          = DefaultCloudFrontWebDistributionForS3Props fw (JRef b) (JRef L)
              (JRef (length t + 1)) (JBool (h \<noteq> JBool False))
              (if h = JBool False then JUndefined else JRef (length t + 3))
        \<and> cfg = (if truthy p
                 then overrideProps fw (snd (fst (s3Defaultprops fw sc b p h t))) p
                 else snd (fst (s3Defaultprops fw sc b p h t)))
        \<and> kind (snd R ! fst R) = WebDistribution
        \<and> (overrideProps fw = specOverrideProps
             \<and> DefaultCloudFrontWebDistributionForS3Props fw = specDefaultS3Props fixed
             \<and> ownProp p ''originConfigs'' = None \<longrightarrow>
             s3Origins cfg
               = [JObj [(''s3BucketSource'', JRef b),
                        (''originAccessIdentity'', JRef (length t + 1))]])
        \<and> kind (snd R ! (length t + 1)) = ImportedOriginAccessIdentity
        \<and> props (snd R ! (length t + 1)) = JObj [(''originAccessIdentityName'', JObj [(''Ref'', JRef (length t))])]
        \<and> kind (snd R ! length t) = CfnOriginAccessIdentity
        \<and> countKind Bucket (created t (snd R)) = 1
        \<and> kind (snd R ! L) = Bucket
        \<and> cid (snd R ! L) = ''CloudfrontLoggingBucket''
        \<and> L \<noteq> b
        \<and> policy (snd R ! b)
            = Some \<lparr>statements =
                      (case policy (t ! b) of None \<Rightarrow> [] | Some q \<Rightarrow> statements q)
                      @ distributionGrants fw b cfg
                      @ [JObj [(''actions'', JArr [JStr ''s3:GetObject'']),
                               (''resources'', JArr [arnForObjects b ''*'']),
                               (''principals'',
                                JArr [JObj [(''CanonicalUser'',
                                  JObj [(''Fn::GetAtt'', JArr [JRef (length t), JStr ''S3CanonicalUserId''])])]])]],
                    policy_metadata = f16_metadata\<rparr>
        \<and> suppressions f16_metadata
            = [JObj [(''id'', JStr ''F16''),
                     (''reason'', JStr ''Public website bucket policy requires a wildcard principal'')]])"
proof -
  let ?R = "CloudFrontDistributionForS3 fw sc b p h t"
  let ?L = "length t + (if h = JBool False then 2 else 4)"
  let ?dp = "snd (fst (s3Defaultprops fw sc b p h t))"
  note b = assms(1)
  have defaults: "?dp
          = DefaultCloudFrontWebDistributionForS3Props fw (JRef b) (JRef ?L)
              (JRef (length t + 1)) (JBool (h \<noteq> JBool False))
              (if h = JBool False then JUndefined else JRef (length t + 3))"
    using assms(2)
    by (simp add: s3Defaultprops_shape s3Config_def s3HeadersEnabled_def)
  have final: "props (snd ?R ! fst ?R) = finalConfig fw ?dp p"
    using b by (simp add: s3_distribution s3Defaultprops_shape)
  have dist: "kind (snd ?R ! fst ?R) = WebDistribution"
    using b by (simp add: s3_distribution distributionConstruct_def)
  have origin: "s3Origins (props (snd ?R ! fst ?R))
               = [JObj [(''s3BucketSource'', JRef b),
                        (''originAccessIdentity'', JRef (length t + 1))]]"
    if "overrideProps fw = specOverrideProps"
      and "DefaultCloudFrontWebDistributionForS3Props fw = specDefaultS3Props fixed"
      and "ownProp p ''originConfigs'' = None"
    using that
    by (simp add: final defaults s3Origins_finalConfig_spec s3Origins_spec_defaults)
  have oai: "kind (snd ?R ! (length t + 1)) = ImportedOriginAccessIdentity
        \<and> props (snd ?R ! (length t + 1)) = JObj [(''originAccessIdentityName'', JObj [(''Ref'', JRef (length t))])]
        \<and> kind (snd ?R ! length t) = CfnOriginAccessIdentity"
    using s3_new [OF b, of 0 fw sc p h] s3_new [OF b, of "Suc 0" fw sc p h]
    by (simp add: s3New_prefix originAccessConstructs_def refOf_def)
  have count: "countKind Bucket (created t (snd ?R)) = 1"
    using b assms(2)
    by (simp add: s3_created s3New_def edge_function_census other_census)
  have lb: "kind (snd ?R ! ?L) = Bucket \<and> cid (snd ?R ! ?L) = ''CloudfrontLoggingBucket''"
    using s3_new [OF b, of "if h = JBool False then 2 else 4" fw sc p h]
          s3New_logging_bucket [OF assms(2), of fw sc "length t" h]
    by (simp add: loggingBucketConstruct_def)
  have distinct: "?L \<noteq> b" using b by simp
  have pol: "policy (snd ?R ! b)
            = Some \<lparr>statements =
                      (case policy (t ! b) of None \<Rightarrow> [] | Some q \<Rightarrow> statements q)
                      @ distributionGrants fw b (props (snd ?R ! fst ?R))
                      @ [JObj [(''actions'', JArr [JStr ''s3:GetObject'']),
                               (''resources'', JArr [arnForObjects b ''*'']),
                               (''principals'',
                                JArr [JObj [(''CanonicalUser'',
                                  JObj [(''Fn::GetAtt'', JArr [JRef (length t), JStr ''S3CanonicalUserId''])])]])]],
                    policy_metadata = f16_metadata\<rparr>"
    using b
    by (simp add: s3_source_bucket s3_distribution grantedPolicy_def policyStatements_def
          getObjectStatement_def CanonicalUserPrincipal_def attrOf_def)
  have f16: "suppressions f16_metadata
            = [JObj [(''id'', JStr ''F16''),
                     (''reason'', JStr ''Public website bucket policy requires a wildcard principal'')]]"
    by (simp add: suppressions_def f16_metadata_def)
  have final': "props (snd ?R ! fst ?R) = (if truthy p then overrideProps fw ?dp p else ?dp)"
    using final by (simp add: finalConfig_def)
  from defaults final' dist origin oai count lb distinct pol f16
  show ?thesis unfolding Let_def by blast
qed

text \<open>
  No properties, no flag, on the example tree, whose source bucket has one policy
  statement already; the construction of the distribution adds a read grant.
\<close>

theorem s3_scenario_witness:
  "s3Origins (props (snd (CloudFrontDistributionForS3 example_collaborators 0 0 JUndefined JUndefined example_tree)
                       ! fst (CloudFrontDistributionForS3 example_collaborators 0 0 JUndefined JUndefined example_tree)))
     = [JObj [(''s3BucketSource'', JRef 0), (''originAccessIdentity'', JRef 4)]]
   \<and> kind (snd (CloudFrontDistributionForS3 example_collaborators 0 0 JUndefined JUndefined example_tree) ! 3)
       = CfnOriginAccessIdentity
   \<and> countKind Bucket (created example_tree
        (snd (CloudFrontDistributionForS3 example_collaborators 0 0 JUndefined JUndefined example_tree))) = 1
   \<and> cid (snd (CloudFrontDistributionForS3 example_collaborators 0 0 JUndefined JUndefined example_tree) ! 7)
       = ''CloudfrontLoggingBucket''
   \<and> policy (snd (CloudFrontDistributionForS3 example_collaborators 0 0 JUndefined JUndefined example_tree) ! 0)
       = Some \<lparr>statements =
                 [JStr ''DenyInsecureTransport'',
                  example_read_grant,
                  JObj [(''actions'', JArr [JStr ''s3:GetObject'']),
                        (''resources'', JArr [arnForObjects 0 ''*'']),
                        (''principals'',
                         JArr [JObj [(''CanonicalUser'',
                           JObj [(''Fn::GetAtt'', JArr [JRef 3, JStr ''S3CanonicalUserId''])])]])]],
               policy_metadata = f16_metadata\<rparr>"
proof -
  have b: "(0::nat) < length example_tree" by (simp add: length_example_tree)
  have n: "\<not> callerLoggingConfig JUndefined" by (simp add: callerLoggingConfig_def)
  have o: "ownProp JUndefined ''originConfigs'' = None" by (simp add: ownProp_def)
  have q: "policy (example_tree ! 0)
             = Some \<lparr>statements = [JStr ''DenyInsecureTransport''], policy_metadata = JUndefined\<rparr>"
    by (simp add: example_tree_def)
  from s3_scenario_without_logging_config [OF b n, of example_collaborators 0 JUndefined
         "[(''defaultRootObject'', JStr ''index.html'')]"] q o
  show ?thesis
    by (simp add: Let_def length_example_tree example_collaborators_fields
          s3Origins_spec_defaults)
qed

text \<open>
  C5 as stated fails in its first clause: the merge lets the caller's
  \<^verbatim>\<open>originConfigs\<close> replace those of the defaults, so a caller who passes no
  \<^verbatim>\<open>loggingConfig\<close> but an origin of their own (a custom origin here) gets a
  distribution whose only origin has no bucket source: it does not resolve to \<open>b\<close>.
\<close>

theorem caller_origin_replaces_bucket_origin_counterexample:
  "\<not> callerLoggingConfig example_own_origin
   \<and> kind (snd (CloudFrontDistributionForS3 example_collaborators 0 0 example_own_origin
                  JUndefined example_tree)
             ! fst (CloudFrontDistributionForS3 example_collaborators 0 0 example_own_origin
                  JUndefined example_tree)) = WebDistribution
   \<and> getProp (props (snd (CloudFrontDistributionForS3 example_collaborators 0 0
                            example_own_origin JUndefined example_tree)
                       ! fst (CloudFrontDistributionForS3 example_collaborators 0 0
                            example_own_origin JUndefined example_tree))) ''originConfigs''
       = getProp example_own_origin ''originConfigs''
   \<and> s3Origins (props (snd (CloudFrontDistributionForS3 example_collaborators 0 0
                              example_own_origin JUndefined example_tree)
                         ! fst (CloudFrontDistributionForS3 example_collaborators 0 0
                              example_own_origin JUndefined example_tree)))
       = [JUndefined]"
proof -
  have b: "(0::nat) < length example_tree" by (simp add: length_example_tree)
  have n: "\<not> callerLoggingConfig example_own_origin"
    by (simp add: callerLoggingConfig_def example_own_origin_def)
  have g: "getProp (finalConfig example_collaborators dp example_own_origin) ''originConfigs''
             = getProp example_own_origin ''originConfigs''" for dp
    by (simp add: getProp_finalConfig_spec example_collaborators_fields example_own_origin_def
          ownProp_def)
  have s: "s3Origins (finalConfig example_collaborators dp example_own_origin) = [JUndefined]"
    for dp
    by (simp add: s3Origins_def g) (simp add: example_own_origin_def)
  from b n show ?thesis
    by (simp add: s3_distribution g s distributionConstruct_def)
qed

end
